theory Spec2Isabelle
  imports Main "HOL-Library.Word" "HOL-Library.Sublist"
begin

section \<open>Account keys of the Flow CLI: data model\<close>

text \<open>
  The development embeds the account-key code of package \<open>flowkit\<close> (the four key
  variants, their factory \<open>accountKeyFromConfig\<close> and their methods) and the account code
  of package \<open>project\<close> (\<open>account.go\<close>). A Go struct is a record, a Go interface with a
  closed set of implementations is a datatype, a Go \<open>(value, error)\<close> result is a sum with
  the error on the left, and a method with a pointer receiver that assigns to a field
  returns the updated receiver.
\<close>

type_synonym byte = "8 word"

subsection \<open>Types of the external libraries\<close>

text \<open>\<open>crypto.SignatureAlgorithm\<close> and \<open>crypto.HashAlgorithm\<close> of the Flow Go SDK: closed
  enumerations, each with an explicit "unknown" value, which is the zero value of the type.\<close>

datatype SignatureAlgorithm =
  UnknownSignatureAlgorithm | BLS_BLS12_381 | ECDSA_P256 | ECDSA_secp256k1

datatype HashAlgorithm =
  UnknownHashAlgorithm | SHA2_256 | SHA2_384 | SHA3_256 | SHA3_384 | KMAC128_BLS_BLS12_381 | Keccak_256

text \<open>\<open>crypto.PrivateKey\<close> is an interface value: a signature algorithm and the encoded
  key bytes. A field of this type may be \<open>nil\<close>, which is \<open>None\<close> here.\<close>

datatype crypto_PrivateKey =
  crypto_PrivateKey (Algorithm: SignatureAlgorithm) (Encode: "byte list")

text \<open>\<open>cloudkms.Key\<close>, the structured handle of a remote key.\<close>

record cloudkms_Key =
  ProjectID :: string
  LocationID :: string
  KeyRingID :: string
  KeyID :: string
  KeyVersion :: string

datatype cloudkms_Client = cloudkms_Client

text \<open>\<open>crypto.Signer\<close>: a signer held in memory or one backed by the remote service.\<close>

datatype crypto_Signer =
  InMemorySigner crypto_PrivateKey HashAlgorithm
| KMSSigner cloudkms_Key

text \<open>The curves of \<open>slip10\<close> and a derived key, whose field \<open>Key\<close> holds its raw bytes.\<close>

datatype slip10_Curve = CurveBitcoin | CurveP256 | CurveEd25519

record slip10_Key =
  Key :: "byte list"
  ChainCode :: "byte list"

subsection \<open>Errors\<close>

text \<open>
  The Go code builds its errors with \<open>fmt.Errorf\<close>. Each constructor below is one
  \<open>fmt.Errorf\<close> site of the source, named after the kind the specification gives it, and
  carries the values that are formatted into the message; \<open>External\<close> is an error that an
  external library returned, which the code passes on or wraps with \<open>%w\<close>.
\<close>

type_synonym KeyType = string

datatype error =
  UnsupportedKeyType KeyType
| KeyNotAccessible
| KeyFileUnreadable string error
| KeyDecodeError string error
| InvalidMnemonic
| InvalidDerivationPath
| External string

text \<open>The text of an error, as \<open>Error()\<close> renders the format strings of the source.\<close>

fun error_text :: "error \<Rightarrow> string" where
  "error_text (UnsupportedKeyType t) = ''invalid key type: '' @ [CHR 0x22] @ t @ [CHR 0x22]"
| "error_text KeyNotAccessible = ''private key not accessible''"
| "error_text (KeyFileUnreadable loc e) =
     ''could not load the key for the account from provided location '' @ loc @ '': '' @ error_text e"
| "error_text (KeyDecodeError loc e) =
     ''could not decode the key from provided location '' @ loc @ '': '' @ error_text e"
| "error_text InvalidMnemonic = ''invalid mnemonic defined for account in flow.json''"
| "error_text InvalidDerivationPath = ''invalid derivation path defined for account in flow.json''"
| "error_text (External s) = s"

subsection \<open>The configuration record\<close>

text \<open>
  Modelled from the spec: the declarations of package \<open>config\<close> (the struct
  \<open>config.AccountKey\<close>, the string type \<open>config.KeyType\<close> and its four constants) are not
  among the sources. The record has the fields that the source reads and writes, which are
  the fields the specification lists for a key record: variant tag, index, signature
  algorithm, hash algorithm, raw private key, mnemonic, derivation path, resource identifier
  and file location. A field that a composite literal of the source leaves out has the zero
  value of its type: \<open>0\<close>, the unknown algorithm, \<open>nil\<close> or the empty string. The four
  constants are the tags of the configuration format; the properties below use of them only
  that they are four different strings.
\<close>

record config_AccountKey =
  Type :: KeyType
  Index :: int
  SigAlgo :: SignatureAlgorithm
  HashAlgo :: HashAlgorithm
  PrivateKey :: "crypto_PrivateKey option"
  Mnemonic :: string
  DerivationPath :: string
  ResourceID :: string
  Location :: string

definition KeyTypeHex :: KeyType where "KeyTypeHex = ''hex''"
definition KeyTypeBip44 :: KeyType where "KeyTypeBip44 = ''bip44''"
definition KeyTypeGoogleKMS :: KeyType where "KeyTypeGoogleKMS = ''google-kms''"
definition KeyTypeFile :: KeyType where "KeyTypeFile = ''file''"

subsection \<open>The external operations\<close>

text \<open>
  The functions of the operating system and of the external libraries that the key code
  calls. They are parameters of the model: every theorem holds for whatever they compute.
  \<open>os_ReadFile\<close> is the file system at the moment of the call.
\<close>

record env =
  os_ReadFile :: "string \<Rightarrow> error + string"
  crypto_DecodePrivateKeyHex :: "SignatureAlgorithm \<Rightarrow> string \<Rightarrow> error + crypto_PrivateKey"
  crypto_DecodePrivateKey :: "SignatureAlgorithm \<Rightarrow> byte list \<Rightarrow> error + crypto_PrivateKey"
  crypto_NewInMemorySigner :: "crypto_PrivateKey option \<Rightarrow> HashAlgorithm \<Rightarrow> error + crypto_Signer"
  bip39_IsMnemonicValid :: "string \<Rightarrow> bool"
  bip39_NewSeed :: "string \<Rightarrow> string \<Rightarrow> byte list"
  goeth_ParseDerivationPath :: "string \<Rightarrow> error + 32 word list"
  slip10_NewMasterKeyWithCurve :: "byte list \<Rightarrow> slip10_Curve \<Rightarrow> error + slip10_Key"
  slip10_NewChildKey :: "slip10_Key \<Rightarrow> 32 word \<Rightarrow> error + slip10_Key"
  cloudkms_KeyFromResourceID :: "string \<Rightarrow> error + cloudkms_Key"
  cloudkms_ResourceID :: "cloudkms_Key \<Rightarrow> string"
  cloudkms_NewClient :: "error + cloudkms_Client"
  cloudkms_SignerForKey :: "cloudkms_Client \<Rightarrow> cloudkms_Key \<Rightarrow> error + crypto_Signer"

text \<open>A call of an external operation that reads a file or takes part in a derivation.
  The lazily materialising methods return the calls they made, in order.\<close>

datatype call =
  ReadFile_call string
| DecodePrivateKeyHex_call SignatureAlgorithm string
| IsMnemonicValid_call string
| ParseDerivationPath_call string
| NewSeed_call string string
| NewMasterKeyWithCurve_call "byte list" slip10_Curve
| NewChildKey_call "32 word"
| DecodePrivateKey_call SignatureAlgorithm "byte list"

text \<open>The calls that are the underlying work of a materialisation: reading the key file,
  deriving the seed from the mnemonic, and deriving the master key from the seed.\<close>

fun is_file_read :: "call \<Rightarrow> bool" where
  "is_file_read (ReadFile_call p) = True"
| "is_file_read c = False"

fun is_seed_derivation :: "call \<Rightarrow> bool" where
  "is_seed_derivation (NewSeed_call m p) = True"
| "is_seed_derivation c = False"

fun is_master_derivation :: "call \<Rightarrow> bool" where
  "is_master_derivation (NewMasterKeyWithCurve_call seed curve) = True"
| "is_master_derivation c = False"

section \<open>The key variants\<close>

subsection \<open>The shared base\<close>

record baseAccountKey =
  keyType :: KeyType
  index :: int
  sigAlgo :: SignatureAlgorithm
  hashAlgo :: HashAlgorithm

definition baseKeyFromConfig :: "config_AccountKey \<Rightarrow> baseAccountKey" where
  "baseKeyFromConfig accountKeyConf =
     \<lparr>keyType = Type accountKeyConf,
      index = Index accountKeyConf,
      sigAlgo = SigAlgo accountKeyConf,
      hashAlgo = HashAlgo accountKeyConf\<rparr>"

definition baseAccountKey_Type :: "baseAccountKey \<Rightarrow> KeyType" where
  "baseAccountKey_Type a = keyType a"

definition baseAccountKey_SigAlgo :: "baseAccountKey \<Rightarrow> SignatureAlgorithm" where
  "baseAccountKey_SigAlgo a =
     (if sigAlgo a = UnknownSignatureAlgorithm then ECDSA_P256 else sigAlgo a)"

definition baseAccountKey_HashAlgo :: "baseAccountKey \<Rightarrow> HashAlgorithm" where
  "baseAccountKey_HashAlgo a =
     (if hashAlgo a = UnknownHashAlgorithm then SHA3_256 else hashAlgo a)"

definition baseAccountKey_Index :: "baseAccountKey \<Rightarrow> int" where
  "baseAccountKey_Index a = index a"

text \<open>\<open>Validate\<close> of the base returns \<open>nil\<close>: no error.\<close>

definition baseAccountKey_Validate :: "baseAccountKey \<Rightarrow> error option" where
  "baseAccountKey_Validate a = None"

subsection \<open>The four variants\<close>

text \<open>Each variant embeds the base (\<open>*baseAccountKey\<close>, allocated by its constructor and
  shared with no other key) and adds its own fields.\<close>

record KmsAccountKey =
  kms_base :: baseAccountKey
  kmsKey :: cloudkms_Key

record HexAccountKey =
  hex_base :: baseAccountKey
  hex_privateKey :: "crypto_PrivateKey option"

record FileAccountKey =
  file_base :: baseAccountKey
  file_privateKey :: "crypto_PrivateKey option"
  location :: string

record Bip44AccountKey =
  bip44_base :: baseAccountKey
  bip44_privateKey :: "crypto_PrivateKey option"
  mnemonic :: string
  derivationPath :: string

text \<open>The interface \<open>AccountKey\<close> with its implementations.\<close>

datatype AccountKey =
  Hex HexAccountKey
| Kms KmsAccountKey
| Bip44 Bip44AccountKey
| File FileAccountKey

subsection \<open>Constructors\<close>

definition kmsKeyFromConfig :: "env \<Rightarrow> config_AccountKey \<Rightarrow> error + AccountKey" where
  "kmsKeyFromConfig E key =
     (case cloudkms_KeyFromResourceID E (ResourceID key) of
        Inl err \<Rightarrow> Inl err
      | Inr accountKMSKey \<Rightarrow>
          Inr (Kms \<lparr>kms_base = \<lparr>keyType = KeyTypeGoogleKMS, index = Index key,
                                 sigAlgo = SigAlgo key, hashAlgo = HashAlgo key\<rparr>,
                    kmsKey = accountKMSKey\<rparr>))"

definition NewHexAccountKeyFromPrivateKey ::
  "int \<Rightarrow> HashAlgorithm \<Rightarrow> crypto_PrivateKey \<Rightarrow> HexAccountKey" where
  "NewHexAccountKeyFromPrivateKey idx hashAlg privKey =
     \<lparr>hex_base = \<lparr>keyType = KeyTypeHex, index = idx,
                   sigAlgo = Algorithm privKey, hashAlgo = hashAlg\<rparr>,
      hex_privateKey = Some privKey\<rparr>"

definition hexKeyFromConfig :: "config_AccountKey \<Rightarrow> error + HexAccountKey" where
  "hexKeyFromConfig accountKey =
     Inr \<lparr>hex_base = baseKeyFromConfig accountKey, hex_privateKey = PrivateKey accountKey\<rparr>"

definition fileKeyFromConfig :: "config_AccountKey \<Rightarrow> error + FileAccountKey" where
  "fileKeyFromConfig accountKey =
     Inr \<lparr>file_base = baseKeyFromConfig accountKey, file_privateKey = None,
          location = Location accountKey\<rparr>"

definition NewFileAccountKey ::
  "string \<Rightarrow> int \<Rightarrow> SignatureAlgorithm \<Rightarrow> HashAlgorithm \<Rightarrow> FileAccountKey" where
  "NewFileAccountKey loc idx sigAlg hashAlg =
     \<lparr>file_base = \<lparr>keyType = KeyTypeFile, index = idx, sigAlgo = sigAlg, hashAlgo = hashAlg\<rparr>,
      file_privateKey = None,
      location = loc\<rparr>"

definition bip44KeyFromConfig :: "config_AccountKey \<Rightarrow> error + AccountKey" where
  "bip44KeyFromConfig key =
     Inr (Bip44 \<lparr>bip44_base = \<lparr>keyType = KeyTypeBip44, index = Index key,
                                 sigAlgo = SigAlgo key, hashAlgo = HashAlgo key\<rparr>,
                  bip44_privateKey = None,
                  mnemonic = Mnemonic key,
                  derivationPath = DerivationPath key\<rparr>)"

text \<open>The factory: a switch over the tag, in the order of the source, and the error after
  the switch for every other tag.\<close>

definition accountKeyFromConfig :: "env \<Rightarrow> config_AccountKey \<Rightarrow> error + AccountKey" where
  "accountKeyFromConfig E accountKeyConf =
     (if Type accountKeyConf = KeyTypeHex then map_sum id Hex (hexKeyFromConfig accountKeyConf)
      else if Type accountKeyConf = KeyTypeBip44 then bip44KeyFromConfig accountKeyConf
      else if Type accountKeyConf = KeyTypeGoogleKMS then kmsKeyFromConfig E accountKeyConf
      else if Type accountKeyConf = KeyTypeFile then map_sum id File (fileKeyFromConfig accountKeyConf)
      else Inl (UnsupportedKeyType (Type accountKeyConf)))"

subsection \<open>The KMS-backed key\<close>

text \<open>A composite literal of \<open>config.AccountKey\<close> sets the fields it names; the other
  fields keep the zero value of their type, written out in each record below.\<close>

definition KmsAccountKey_ToConfig :: "env \<Rightarrow> KmsAccountKey \<Rightarrow> config_AccountKey" where
  "KmsAccountKey_ToConfig E a =
     \<lparr>Type = keyType (kms_base a),
      Index = index (kms_base a),
      SigAlgo = sigAlgo (kms_base a),
      HashAlgo = hashAlgo (kms_base a),
      PrivateKey = None, Mnemonic = [], DerivationPath = [],
      ResourceID = cloudkms_ResourceID E (kmsKey a),
      Location = []\<rparr>"

definition KmsAccountKey_Signer :: "env \<Rightarrow> KmsAccountKey \<Rightarrow> error + crypto_Signer" where
  "KmsAccountKey_Signer E a =
     (case cloudkms_NewClient E of
        Inl err \<Rightarrow> Inl err
      | Inr kmsClient \<Rightarrow>
          (case cloudkms_SignerForKey E kmsClient (kmsKey a) of
             Inl err \<Rightarrow> Inl err
           | Inr accountKMSSigner \<Rightarrow> Inr accountKMSSigner))"

definition KmsAccountKey_PrivateKey :: "KmsAccountKey \<Rightarrow> error + crypto_PrivateKey option" where
  "KmsAccountKey_PrivateKey a = Inl KeyNotAccessible"

subsection \<open>The inline key\<close>

text \<open>\<open>PrivateKey\<close> returns a pointer to the field; the model returns what the pointer
  refers to when the method returns, which is \<open>None\<close> for a \<open>nil\<close> key.\<close>

definition HexAccountKey_Signer :: "env \<Rightarrow> HexAccountKey \<Rightarrow> error + crypto_Signer" where
  "HexAccountKey_Signer E a =
     crypto_NewInMemorySigner E (hex_privateKey a) (baseAccountKey_HashAlgo (hex_base a))"

definition HexAccountKey_PrivateKey :: "HexAccountKey \<Rightarrow> error + crypto_PrivateKey option" where
  "HexAccountKey_PrivateKey a = Inr (hex_privateKey a)"

definition HexAccountKey_ToConfig :: "HexAccountKey \<Rightarrow> config_AccountKey" where
  "HexAccountKey_ToConfig a =
     \<lparr>Type = keyType (hex_base a),
      Index = index (hex_base a),
      SigAlgo = sigAlgo (hex_base a),
      HashAlgo = hashAlgo (hex_base a),
      PrivateKey = hex_privateKey a,
      Mnemonic = [], DerivationPath = [], ResourceID = [], Location = []\<rparr>"

subsection \<open>The file-backed key\<close>

definition strings_TrimPrefix :: "string \<Rightarrow> string \<Rightarrow> string" where
  "strings_TrimPrefix s p = (if prefix p s then drop (length p) s else s)"

text \<open>
  \<open>PrivateKey\<close> loads the key lazily: when the field is \<open>nil\<close> it reads the file, decodes
  the content after an optional \<open>0x\<close> and stores the key in the field. The result is the
  returned value, the receiver after the call and the external calls made.
\<close>

definition FileAccountKey_PrivateKey ::
  "env \<Rightarrow> FileAccountKey \<Rightarrow> (error + crypto_PrivateKey option) \<times> FileAccountKey \<times> call list" where
  "FileAccountKey_PrivateKey E f =
     (case file_privateKey f of
        None \<Rightarrow>
          (case os_ReadFile E (location f) of
             Inl err \<Rightarrow> (Inl (KeyFileUnreadable (location f) err), f, [ReadFile_call (location f)])
           | Inr key \<Rightarrow>
               (case crypto_DecodePrivateKeyHex E (sigAlgo (file_base f)) (strings_TrimPrefix key ''0x'') of
                  Inl err \<Rightarrow>
                    (Inl (KeyDecodeError (location f) err), f,
                     [ReadFile_call (location f),
                      DecodePrivateKeyHex_call (sigAlgo (file_base f)) (strings_TrimPrefix key ''0x'')])
                | Inr pkey \<Rightarrow>
                    (Inr (Some pkey), f\<lparr>file_privateKey := Some pkey\<rparr>,
                     [ReadFile_call (location f),
                      DecodePrivateKeyHex_call (sigAlgo (file_base f)) (strings_TrimPrefix key ''0x'')])))
      | Some k \<Rightarrow> (Inr (Some k), f, []))"

definition FileAccountKey_Signer ::
  "env \<Rightarrow> FileAccountKey \<Rightarrow> (error + crypto_Signer) \<times> FileAccountKey \<times> call list" where
  "FileAccountKey_Signer E f =
     (case FileAccountKey_PrivateKey E f of
        (Inl err, f', cs) \<Rightarrow> (Inl err, f', cs)
      | (Inr key, f', cs) \<Rightarrow>
          (crypto_NewInMemorySigner E key (baseAccountKey_HashAlgo (file_base f')), f', cs))"

definition FileAccountKey_ToConfig :: "FileAccountKey \<Rightarrow> config_AccountKey" where
  "FileAccountKey_ToConfig f =
     \<lparr>Type = KeyTypeFile,
      Index = 0,
      SigAlgo = sigAlgo (file_base f),
      HashAlgo = hashAlgo (file_base f),
      PrivateKey = None, Mnemonic = [], DerivationPath = [], ResourceID = [],
      Location = location f\<rparr>"

text \<open>\<open>FileAccountKey\<close> declares no \<open>Validate\<close>: the method of the embedded base is
  promoted. It reads no field of the file key, calls nothing and assigns nothing.\<close>

definition FileAccountKey_Validate ::
  "env \<Rightarrow> FileAccountKey \<Rightarrow> error option \<times> FileAccountKey \<times> call list" where
  "FileAccountKey_Validate E f = (baseAccountKey_Validate (file_base f), f, [])"

subsection \<open>The derived key\<close>

text \<open>The curve chosen in \<open>Validate\<close>: \<open>CurveBitcoin\<close>, replaced by \<open>CurveP256\<close> when the
  field \<open>sigAlgo\<close> is \<open>ECDSA_P256\<close>.\<close>

definition Validate_curve :: "Bip44AccountKey \<Rightarrow> slip10_Curve" where
  "Validate_curve a = (if sigAlgo (bip44_base a) = ECDSA_P256 then CurveP256 else CurveBitcoin)"

text \<open>The loop of \<open>Validate\<close> over the parsed path: one child key for each segment, in
  order, leaving at the first error.\<close>

fun Validate_loop ::
  "env \<Rightarrow> slip10_Key \<Rightarrow> 32 word list \<Rightarrow> (error + slip10_Key) \<times> call list" where
  "Validate_loop E accountKey [] = (Inr accountKey, [])"
| "Validate_loop E accountKey (n # ns) =
     (case slip10_NewChildKey E accountKey n of
        Inl err \<Rightarrow> (Inl err, [NewChildKey_call n])
      | Inr child \<Rightarrow>
          (case Validate_loop E child ns of (r, cs) \<Rightarrow> (r, NewChildKey_call n # cs)))"

text \<open>
  \<open>Validate\<close> derives the key and assigns it to the field. The assignment
  \<open>a.privateKey, err = crypto.DecodePrivateKey(...)\<close> also happens when decoding fails,
  with the \<open>nil\<close> key that comes with the error.
\<close>

definition Bip44AccountKey_Validate ::
  "env \<Rightarrow> Bip44AccountKey \<Rightarrow> error option \<times> Bip44AccountKey \<times> call list" where
  "Bip44AccountKey_Validate E a =
     (if \<not> bip39_IsMnemonicValid E (mnemonic a)
      then (Some InvalidMnemonic, a, [IsMnemonicValid_call (mnemonic a)])
      else
        (case goeth_ParseDerivationPath E (derivationPath a) of
           Inl err \<Rightarrow>
             (Some InvalidDerivationPath, a,
              [IsMnemonicValid_call (mnemonic a), ParseDerivationPath_call (derivationPath a)])
         | Inr path \<Rightarrow>
             (let seed = bip39_NewSeed E (mnemonic a) [];
                  curve = Validate_curve a;
                  cs0 = [IsMnemonicValid_call (mnemonic a),
                         ParseDerivationPath_call (derivationPath a),
                         NewSeed_call (mnemonic a) [],
                         NewMasterKeyWithCurve_call seed curve]
              in case slip10_NewMasterKeyWithCurve E seed curve of
                   Inl err \<Rightarrow> (Some err, a, cs0)
                 | Inr master \<Rightarrow>
                     (case Validate_loop E master path of
                        (Inl err, cs1) \<Rightarrow> (Some err, a, cs0 @ cs1)
                      | (Inr accountKey, cs1) \<Rightarrow>
                          (let alg = baseAccountKey_SigAlgo (bip44_base a);
                               cs2 = cs0 @ cs1 @ [DecodePrivateKey_call alg (Key accountKey)]
                           in case crypto_DecodePrivateKey E alg (Key accountKey) of
                                Inl err \<Rightarrow> (Some err, a\<lparr>bip44_privateKey := None\<rparr>, cs2)
                              | Inr pkey \<Rightarrow> (None, a\<lparr>bip44_privateKey := Some pkey\<rparr>, cs2))))))"

definition Bip44AccountKey_PrivateKey ::
  "env \<Rightarrow> Bip44AccountKey \<Rightarrow> (error + crypto_PrivateKey option) \<times> Bip44AccountKey \<times> call list" where
  "Bip44AccountKey_PrivateKey E a =
     (case bip44_privateKey a of
        None \<Rightarrow>
          (case Bip44AccountKey_Validate E a of
             (Some err, a', cs) \<Rightarrow> (Inl err, a', cs)
           | (None, a', cs) \<Rightarrow> (Inr (bip44_privateKey a'), a', cs))
      | Some k \<Rightarrow> (Inr (Some k), a, []))"

definition Bip44AccountKey_Signer ::
  "env \<Rightarrow> Bip44AccountKey \<Rightarrow> (error + crypto_Signer) \<times> Bip44AccountKey \<times> call list" where
  "Bip44AccountKey_Signer E a =
     (case Bip44AccountKey_PrivateKey E a of
        (Inl err, a', cs) \<Rightarrow> (Inl err, a', cs)
      | (Inr pkey, a', cs) \<Rightarrow>
          (crypto_NewInMemorySigner E pkey (baseAccountKey_HashAlgo (bip44_base a')), a', cs))"

definition Bip44AccountKey_ToConfig :: "Bip44AccountKey \<Rightarrow> config_AccountKey" where
  "Bip44AccountKey_ToConfig a =
     \<lparr>Type = keyType (bip44_base a),
      Index = index (bip44_base a),
      SigAlgo = sigAlgo (bip44_base a),
      HashAlgo = hashAlgo (bip44_base a),
      PrivateKey = bip44_privateKey a,
      Mnemonic = mnemonic a,
      DerivationPath = derivationPath a,
      ResourceID = [], Location = []\<rparr>"

subsection \<open>Methods of the interface\<close>

definition AccountKey_ToConfig :: "env \<Rightarrow> AccountKey \<Rightarrow> config_AccountKey" where
  "AccountKey_ToConfig E k =
     (case k of
        Hex a \<Rightarrow> HexAccountKey_ToConfig a
      | Kms a \<Rightarrow> KmsAccountKey_ToConfig E a
      | Bip44 a \<Rightarrow> Bip44AccountKey_ToConfig a
      | File f \<Rightarrow> FileAccountKey_ToConfig f)"

definition AccountKey_PrivateKey ::
  "env \<Rightarrow> AccountKey \<Rightarrow> (error + crypto_PrivateKey option) \<times> AccountKey \<times> call list" where
  "AccountKey_PrivateKey E k =
     (case k of
        Hex a \<Rightarrow> (HexAccountKey_PrivateKey a, Hex a, [])
      | Kms a \<Rightarrow> (KmsAccountKey_PrivateKey a, Kms a, [])
      | Bip44 a \<Rightarrow> (case Bip44AccountKey_PrivateKey E a of (r, a', cs) \<Rightarrow> (r, Bip44 a', cs))
      | File f \<Rightarrow> (case FileAccountKey_PrivateKey E f of (r, f', cs) \<Rightarrow> (r, File f', cs)))"

definition AccountKey_Signer ::
  "env \<Rightarrow> AccountKey \<Rightarrow> (error + crypto_Signer) \<times> AccountKey \<times> call list" where
  "AccountKey_Signer E k =
     (case k of
        Hex a \<Rightarrow> (HexAccountKey_Signer E a, Hex a, [])
      | Kms a \<Rightarrow> (KmsAccountKey_Signer E a, Kms a, [])
      | Bip44 a \<Rightarrow> (case Bip44AccountKey_Signer E a of (r, a', cs) \<Rightarrow> (r, Bip44 a', cs))
      | File f \<Rightarrow> (case FileAccountKey_Signer E f of (r, f', cs) \<Rightarrow> (r, File f', cs)))"

section \<open>Accounts\<close>

text \<open>
  \<open>account.go\<close> of package \<open>project\<close>. The key type of that package and its factory
  \<open>NewAccountKey\<close> are not among the sources: the keys are the keys above, and the factory
  is a parameter of \<open>AccountFromConfig\<close> and \<open>accountsFromConfig\<close>.
\<close>

type_synonym flow_Address = "64 word"

record Account =
  name :: string
  address :: flow_Address
  keys :: "AccountKey list"

record config_Account =
  Name :: string
  Address :: flow_Address
  Keys :: "config_AccountKey list"

record config_Config =
  Accounts :: "config_Account list"

text \<open>Indexing a slice out of range is a run-time panic of Go, which carries the index and
  the length; a method without an error result either returns or panics.\<close>

datatype panic = IndexOutOfRange nat nat

datatype 'a outcome = Returns 'a | Panics panic

definition Account_Keys :: "Account \<Rightarrow> AccountKey list" where
  "Account_Keys a = keys a"

definition Account_DefaultKey :: "Account \<Rightarrow> AccountKey outcome" where
  "Account_DefaultKey a =
     (if 0 < length (keys a) then Returns (keys a ! 0)
      else Panics (IndexOutOfRange 0 (length (keys a))))"

definition Account_SetDefaultKey :: "Account \<Rightarrow> AccountKey \<Rightarrow> Account outcome" where
  "Account_SetDefaultKey a key =
     (if 0 < length (keys a) then Returns (a\<lparr>keys := (keys a)[0 := key]\<rparr>)
      else Panics (IndexOutOfRange 0 (length (keys a))))"

text \<open>The loop of \<open>AccountFromConfig\<close>: the keys converted so far are appended to
  \<open>accountKeys\<close>; at the first error the function returns \<open>nil\<close> and the error.\<close>

fun AccountFromConfig_loop ::
  "(config_AccountKey \<Rightarrow> error + AccountKey) \<Rightarrow> AccountKey list \<Rightarrow> config_AccountKey list
     \<Rightarrow> error + AccountKey list" where
  "AccountFromConfig_loop NewAccountKey accountKeys [] = Inr accountKeys"
| "AccountFromConfig_loop NewAccountKey accountKeys (key # rest) =
     (case NewAccountKey key of
        Inl err \<Rightarrow> Inl err
      | Inr accountKey \<Rightarrow> AccountFromConfig_loop NewAccountKey (accountKeys @ [accountKey]) rest)"

definition AccountFromConfig ::
  "(config_AccountKey \<Rightarrow> error + AccountKey) \<Rightarrow> config_Account \<Rightarrow> error + Account" where
  "AccountFromConfig NewAccountKey accountConf =
     (case AccountFromConfig_loop NewAccountKey [] (Keys accountConf) of
        Inl err \<Rightarrow> Inl err
      | Inr accountKeys \<Rightarrow>
          Inr \<lparr>name = Name accountConf, address = Address accountConf, keys = accountKeys\<rparr>)"

fun accountsFromConfig_loop ::
  "(config_AccountKey \<Rightarrow> error + AccountKey) \<Rightarrow> Account list \<Rightarrow> config_Account list
     \<Rightarrow> error + Account list" where
  "accountsFromConfig_loop NewAccountKey accounts [] = Inr accounts"
| "accountsFromConfig_loop NewAccountKey accounts (accountConf # rest) =
     (case AccountFromConfig NewAccountKey accountConf of
        Inl err \<Rightarrow> Inl err
      | Inr account \<Rightarrow> accountsFromConfig_loop NewAccountKey (accounts @ [account]) rest)"

definition accountsFromConfig ::
  "(config_AccountKey \<Rightarrow> error + AccountKey) \<Rightarrow> config_Config \<Rightarrow> error + Account list" where
  "accountsFromConfig NewAccountKey conf =
     accountsFromConfig_loop NewAccountKey [] (Accounts conf)"

definition AccountFromAddressAndKey :: "flow_Address \<Rightarrow> crypto_PrivateKey \<Rightarrow> Account" where
  "AccountFromAddressAndKey addr privKey =
     \<lparr>name = [], address = addr,
      keys = [Hex (NewHexAccountKeyFromPrivateKey 0 SHA3_256 privKey)]\<rparr>"

definition accountToConfig :: "env \<Rightarrow> Account \<Rightarrow> config_Account" where
  "accountToConfig E account =
     \<lparr>Name = name account, Address = address account,
      Keys = map (AccountKey_ToConfig E) (keys account)\<rparr>"

definition accountsToConfig :: "env \<Rightarrow> Account list \<Rightarrow> config_Account list" where
  "accountsToConfig E accounts = map (accountToConfig E) accounts"

section \<open>A concrete environment\<close>

text \<open>
  Stand-ins for the external operations, on which the general theorems are instantiated:
  a file system with the two files \<open>emulator.pkey\<close> and \<open>broken.pkey\<close>, decoders that
  accept what they are given here, one valid mnemonic and one derivation path.
\<close>

definition example_mnemonic :: string where
  "example_mnemonic =
     ''abandon abandon abandon abandon abandon abandon abandon abandon abandon abandon abandon about''"

definition example_env :: env where
  "example_env =
     \<lparr>os_ReadFile =
        (\<lambda>p. if p = ''emulator.pkey'' then Inr ''0x0a0b''
             else if p = ''broken.pkey'' then Inr ''0xzz''
             else Inl (External ''no such file or directory'')),
      crypto_DecodePrivateKeyHex =
        (\<lambda>alg s. if s = ''0a0b'' then Inr (crypto_PrivateKey alg [10, 11])
                 else Inl (External ''invalid hex string'')),
      crypto_DecodePrivateKey =
        (\<lambda>alg bs. if bs = [] then Inl (External ''empty key'')
                  else Inr (crypto_PrivateKey alg bs)),
      crypto_NewInMemorySigner =
        (\<lambda>k h. case k of None \<Rightarrow> Inl (External ''no private key'')
                | Some pk \<Rightarrow> Inr (InMemorySigner pk h)),
      bip39_IsMnemonicValid = (\<lambda>m. m = example_mnemonic),
      bip39_NewSeed = (\<lambda>m p. [1, 2, 3]),
      goeth_ParseDerivationPath =
        (\<lambda>p. if p = ''m/0/1'' then Inr [0, 1] else Inl (External ''invalid path'')),
      slip10_NewMasterKeyWithCurve =
        (\<lambda>seed curve. Inr \<lparr>Key = (if curve = CurveP256 then 1 else 2) # seed, ChainCode = []\<rparr>),
      slip10_NewChildKey =
        (\<lambda>k n. Inr \<lparr>Key = Key k @ [ucast n], ChainCode = ChainCode k\<rparr>),
      cloudkms_KeyFromResourceID =
        (\<lambda>r. if r = [] then Inl (External ''invalid resource id'')
             else Inr \<lparr>ProjectID = r, LocationID = [], KeyRingID = [], KeyID = [], KeyVersion = []\<rparr>),
      cloudkms_ResourceID = ProjectID,
      cloudkms_NewClient = Inr cloudkms_Client,
      cloudkms_SignerForKey = (\<lambda>c k. Inr (KMSSigner k))\<rparr>"

text \<open>A derived key as the factory builds it, with the valid mnemonic and path of the
  environment and a given signature algorithm.\<close>

definition example_bip44 :: "SignatureAlgorithm \<Rightarrow> Bip44AccountKey" where
  "example_bip44 alg =
     \<lparr>bip44_base = \<lparr>keyType = ''bip44'', index = 0, sigAlgo = alg, hashAlgo = SHA3_256\<rparr>,
      bip44_privateKey = None, mnemonic = example_mnemonic, derivationPath = ''m/0/1''\<rparr>"

text \<open>A KMS-backed key, and a configuration of four accounts whose third account has a
  key record with a tag outside the enumeration.\<close>

definition example_kms :: KmsAccountKey where
  "example_kms =
     \<lparr>kms_base = \<lparr>keyType = ''google-kms'', index = 0, sigAlgo = ECDSA_P256, hashAlgo = SHA2_256\<rparr>,
      kmsKey = \<lparr>ProjectID = ''flow'', LocationID = ''global'', KeyRingID = ''ring'',
                KeyID = ''key'', KeyVersion = ''1''\<rparr>\<rparr>"

definition example_config :: config_Config where
  "example_config =
     \<lparr>Accounts =
        [\<lparr>Name = ''emulator-account'', Address = 1,
          Keys = [\<lparr>Type = ''hex'', Index = 0, SigAlgo = ECDSA_P256, HashAlgo = SHA3_256,
                   PrivateKey = Some (crypto_PrivateKey ECDSA_P256 [7, 8, 9]),
                   Mnemonic = [], DerivationPath = [], ResourceID = [], Location = []\<rparr>]\<rparr>,
         \<lparr>Name = ''testnet-account'', Address = 2,
          Keys = [\<lparr>Type = ''file'', Index = 0, SigAlgo = ECDSA_P256, HashAlgo = SHA3_256,
                   PrivateKey = None, Mnemonic = [], DerivationPath = [], ResourceID = [],
                   Location = ''emulator.pkey''\<rparr>]\<rparr>,
         \<lparr>Name = ''broken-account'', Address = 3,
          Keys = [\<lparr>Type = ''hex'', Index = 0, SigAlgo = ECDSA_P256, HashAlgo = SHA3_256,
                   PrivateKey = Some (crypto_PrivateKey ECDSA_P256 [4, 5, 6]),
                   Mnemonic = [], DerivationPath = [], ResourceID = [], Location = []\<rparr>,
                  \<lparr>Type = ''unknown-type'', Index = 1, SigAlgo = ECDSA_P256, HashAlgo = SHA3_256,
                   PrivateKey = None, Mnemonic = [], DerivationPath = [], ResourceID = [],
                   Location = []\<rparr>]\<rparr>,
         \<lparr>Name = ''mainnet-account'', Address = 4,
          Keys = [\<lparr>Type = ''google-kms'', Index = 0, SigAlgo = ECDSA_P256, HashAlgo = SHA2_256,
                   PrivateKey = None, Mnemonic = [], DerivationPath = [],
                   ResourceID = ''projects/flow/locations/global'', Location = []\<rparr>]\<rparr>]\<rparr>"

section \<open>Properties of the factory\<close>

lemma tags_distinct:
  "KeyTypeHex \<noteq> KeyTypeBip44" "KeyTypeHex \<noteq> KeyTypeGoogleKMS" "KeyTypeHex \<noteq> KeyTypeFile"
  "KeyTypeBip44 \<noteq> KeyTypeGoogleKMS" "KeyTypeBip44 \<noteq> KeyTypeFile" "KeyTypeGoogleKMS \<noteq> KeyTypeFile"
  by (simp_all add: KeyTypeHex_def KeyTypeBip44_def KeyTypeGoogleKMS_def KeyTypeFile_def)

lemma accountKeyFromConfig_other:
  "Type c \<noteq> KeyTypeHex \<Longrightarrow> Type c \<noteq> KeyTypeBip44 \<Longrightarrow> Type c \<noteq> KeyTypeGoogleKMS \<Longrightarrow>
   Type c \<noteq> KeyTypeFile \<Longrightarrow> accountKeyFromConfig E c = Inl (UnsupportedKeyType (Type c))"
  by (simp add: accountKeyFromConfig_def)

text \<open>
  C4. For every configuration record whose tag is none of the four tags of the
  enumeration, \<open>accountKeyFromConfig\<close> returns the unsupported-key-type error, the text of
  that error contains the tag, and the factory returns a key for no such tag.
\<close>

theorem accountKeyFromConfig_unsupported:
  assumes "Type c \<notin> {KeyTypeHex, KeyTypeFile, KeyTypeBip44, KeyTypeGoogleKMS}"
  shows "accountKeyFromConfig E c = Inl (UnsupportedKeyType (Type c)) \<and>
         sublist (Type c) (error_text (UnsupportedKeyType (Type c))) \<and>
         (\<forall>k. accountKeyFromConfig E c \<noteq> Inr k)"
proof -
  from assms have r: "accountKeyFromConfig E c = Inl (UnsupportedKeyType (Type c))"
    by (simp add: accountKeyFromConfig_other)
  have "error_text (UnsupportedKeyType (Type c)) =
          (''invalid key type: '' @ [CHR 0x22]) @ Type c @ [CHR 0x22]"
    by simp
  then have "sublist (Type c) (error_text (UnsupportedKeyType (Type c)))"
    unfolding sublist_def by blast
  with r show ?thesis by simp
qed

theorem accountKeyFromConfig_unsupported_witness:
  "accountKeyFromConfig example_env
     \<lparr>Type = ''unknown-type'', Index = 0, SigAlgo = ECDSA_P256, HashAlgo = SHA3_256,
      PrivateKey = None, Mnemonic = [], DerivationPath = [], ResourceID = [], Location = []\<rparr>
     = Inl (UnsupportedKeyType ''unknown-type'') \<and>
   sublist ''unknown-type'' (error_text (UnsupportedKeyType ''unknown-type''))"
  using accountKeyFromConfig_unsupported [of
     "\<lparr>Type = ''unknown-type'', Index = 0, SigAlgo = ECDSA_P256, HashAlgo = SHA3_256,
      PrivateKey = None, Mnemonic = [], DerivationPath = [], ResourceID = [], Location = []\<rparr>"
     example_env]
  by (simp add: KeyTypeHex_def KeyTypeBip44_def KeyTypeGoogleKMS_def KeyTypeFile_def)

text \<open>
  C7. For every configuration record with the tag of the inline variant, the factory
  returns a key, and \<open>ToConfig\<close> of that key gives back the private key, the signature
  algorithm, the hash algorithm, the index and the tag of the record; the whole record
  comes back once the fields of the other variants are cleared.
\<close>

theorem hex_round_trip:
  assumes "Type c = KeyTypeHex"
  shows "\<exists>k. accountKeyFromConfig E c = Inr k \<and>
             PrivateKey (AccountKey_ToConfig E k) = PrivateKey c \<and>
             SigAlgo (AccountKey_ToConfig E k) = SigAlgo c \<and>
             HashAlgo (AccountKey_ToConfig E k) = HashAlgo c \<and>
             Index (AccountKey_ToConfig E k) = Index c \<and>
             Type (AccountKey_ToConfig E k) = Type c \<and>
             AccountKey_ToConfig E k =
               c\<lparr>Mnemonic := [], DerivationPath := [], ResourceID := [], Location := []\<rparr>"
  using assms
  by (simp add: accountKeyFromConfig_def hexKeyFromConfig_def baseKeyFromConfig_def
      AccountKey_ToConfig_def HexAccountKey_ToConfig_def)

theorem hex_round_trip_witness:
  "AccountKey_ToConfig example_env
     (Hex \<lparr>hex_base = \<lparr>keyType = ''hex'', index = 2, sigAlgo = ECDSA_secp256k1, hashAlgo = SHA2_256\<rparr>,
           hex_privateKey = Some (crypto_PrivateKey ECDSA_secp256k1 [7, 8, 9])\<rparr>)
   = \<lparr>Type = ''hex'', Index = 2, SigAlgo = ECDSA_secp256k1, HashAlgo = SHA2_256,
      PrivateKey = Some (crypto_PrivateKey ECDSA_secp256k1 [7, 8, 9]),
      Mnemonic = [], DerivationPath = [], ResourceID = [], Location = []\<rparr> \<and>
   accountKeyFromConfig example_env
     \<lparr>Type = ''hex'', Index = 2, SigAlgo = ECDSA_secp256k1, HashAlgo = SHA2_256,
      PrivateKey = Some (crypto_PrivateKey ECDSA_secp256k1 [7, 8, 9]),
      Mnemonic = [], DerivationPath = [], ResourceID = [], Location = []\<rparr>
   = Inr (Hex \<lparr>hex_base = \<lparr>keyType = ''hex'', index = 2, sigAlgo = ECDSA_secp256k1, hashAlgo = SHA2_256\<rparr>,
               hex_privateKey = Some (crypto_PrivateKey ECDSA_secp256k1 [7, 8, 9])\<rparr>)"
  using hex_round_trip [of
     "\<lparr>Type = ''hex'', Index = 2, SigAlgo = ECDSA_secp256k1, HashAlgo = SHA2_256,
      PrivateKey = Some (crypto_PrivateKey ECDSA_secp256k1 [7, 8, 9]),
      Mnemonic = [], DerivationPath = [], ResourceID = [], Location = []\<rparr>" example_env]
  by (auto simp add: KeyTypeHex_def accountKeyFromConfig_def hexKeyFromConfig_def
      baseKeyFromConfig_def)

text \<open>
  C3 (as amended). No branch of the factory checks that the fields of its variant are
  present. For a record with the tag of the derived variant the factory returns a key that
  holds the mnemonic and the derivation path of the record as they are, empty or not; the
  inline and the file branch succeed on every record as well; the KMS branch fails exactly
  when the resource identifier does not parse, with the error of the parser. A mnemonic
  that the validity check rejects is reported later, by \<open>Validate\<close> and \<open>PrivateKey\<close> of the
  key the factory returned.
\<close>

theorem factory_validates_nothing:
  "(Type c = KeyTypeBip44 \<longrightarrow>
      accountKeyFromConfig E c =
        Inr (Bip44 \<lparr>bip44_base = \<lparr>keyType = KeyTypeBip44, index = Index c,
                                    sigAlgo = SigAlgo c, hashAlgo = HashAlgo c\<rparr>,
                     bip44_privateKey = None, mnemonic = Mnemonic c,
                     derivationPath = DerivationPath c\<rparr>)) \<and>
   (Type c = KeyTypeHex \<longrightarrow>
      accountKeyFromConfig E c =
        Inr (Hex \<lparr>hex_base = \<lparr>keyType = KeyTypeHex, index = Index c,
                                sigAlgo = SigAlgo c, hashAlgo = HashAlgo c\<rparr>,
                   hex_privateKey = PrivateKey c\<rparr>)) \<and>
   (Type c = KeyTypeFile \<longrightarrow>
      accountKeyFromConfig E c =
        Inr (File \<lparr>file_base = \<lparr>keyType = KeyTypeFile, index = Index c,
                                  sigAlgo = SigAlgo c, hashAlgo = HashAlgo c\<rparr>,
                    file_privateKey = None, location = Location c\<rparr>)) \<and>
   (Type c = KeyTypeGoogleKMS \<longrightarrow>
      accountKeyFromConfig E c =
        (case cloudkms_KeyFromResourceID E (ResourceID c) of
           Inl err \<Rightarrow> Inl err
         | Inr k \<Rightarrow> Inr (Kms \<lparr>kms_base = \<lparr>keyType = KeyTypeGoogleKMS, index = Index c,
                                           sigAlgo = SigAlgo c, hashAlgo = HashAlgo c\<rparr>,
                              kmsKey = k\<rparr>))) \<and>
   (Type c = KeyTypeBip44 \<and> \<not> bip39_IsMnemonicValid E (Mnemonic c) \<longrightarrow>
      (\<exists>a. accountKeyFromConfig E c = Inr (Bip44 a) \<and>
           Bip44AccountKey_Validate E a =
             (Some InvalidMnemonic, a, [IsMnemonicValid_call (Mnemonic c)]) \<and>
           Bip44AccountKey_PrivateKey E a =
             (Inl InvalidMnemonic, a, [IsMnemonicValid_call (Mnemonic c)])))"
  using tags_distinct
  by (auto simp add: accountKeyFromConfig_def bip44KeyFromConfig_def hexKeyFromConfig_def
      fileKeyFromConfig_def kmsKeyFromConfig_def baseKeyFromConfig_def
      Bip44AccountKey_Validate_def Bip44AccountKey_PrivateKey_def)

theorem factory_validates_nothing_witness:
  "Bip44AccountKey_PrivateKey example_env
     \<lparr>bip44_base = \<lparr>keyType = ''bip44'', index = 0, sigAlgo = ECDSA_P256, hashAlgo = SHA3_256\<rparr>,
      bip44_privateKey = None, mnemonic = [], derivationPath = []\<rparr>
   = (Inl InvalidMnemonic,
      \<lparr>bip44_base = \<lparr>keyType = ''bip44'', index = 0, sigAlgo = ECDSA_P256, hashAlgo = SHA3_256\<rparr>,
       bip44_privateKey = None, mnemonic = [], derivationPath = []\<rparr>,
      [IsMnemonicValid_call []]) \<and>
   accountKeyFromConfig example_env
     \<lparr>Type = ''hex'', Index = 0, SigAlgo = ECDSA_P256, HashAlgo = SHA3_256,
      PrivateKey = None, Mnemonic = [], DerivationPath = [], ResourceID = [], Location = []\<rparr>
   = Inr (Hex \<lparr>hex_base = \<lparr>keyType = ''hex'', index = 0, sigAlgo = ECDSA_P256, hashAlgo = SHA3_256\<rparr>,
               hex_privateKey = None\<rparr>) \<and>
   accountKeyFromConfig example_env
     \<lparr>Type = ''file'', Index = 0, SigAlgo = ECDSA_P256, HashAlgo = SHA3_256,
      PrivateKey = None, Mnemonic = [], DerivationPath = [], ResourceID = [], Location = []\<rparr>
   = Inr (File \<lparr>file_base = \<lparr>keyType = ''file'', index = 0, sigAlgo = ECDSA_P256, hashAlgo = SHA3_256\<rparr>,
                file_privateKey = None, location = []\<rparr>) \<and>
   accountKeyFromConfig example_env
     \<lparr>Type = ''google-kms'', Index = 0, SigAlgo = ECDSA_P256, HashAlgo = SHA3_256,
      PrivateKey = None, Mnemonic = [], DerivationPath = [], ResourceID = [], Location = []\<rparr>
   = Inl (External ''invalid resource id'')"
proof -
  let ?cb = "\<lparr>Type = ''bip44'', Index = 0, SigAlgo = ECDSA_P256, HashAlgo = SHA3_256,
        PrivateKey = None, Mnemonic = [], DerivationPath = [], ResourceID = [], Location = []\<rparr>"
  let ?kb = "\<lparr>bip44_base = \<lparr>keyType = ''bip44'', index = 0, sigAlgo = ECDSA_P256,
                              hashAlgo = SHA3_256\<rparr>,
             bip44_privateKey = None, mnemonic = [], derivationPath = []\<rparr>"
  have invalid: "\<not> bip39_IsMnemonicValid example_env []"
    by (simp add: example_env_def example_mnemonic_def)
  have made: "accountKeyFromConfig example_env ?cb = Inr (Bip44 ?kb)"
    using factory_validates_nothing [of ?cb example_env] by (simp add: KeyTypeBip44_def)
  have pre: "Type ?cb = KeyTypeBip44 \<and> \<not> bip39_IsMnemonicValid example_env (Mnemonic ?cb)"
    using invalid by (simp add: KeyTypeBip44_def)
  from factory_validates_nothing [of ?cb example_env] pre
  have "\<exists>a. accountKeyFromConfig example_env ?cb = Inr (Bip44 a) \<and>
          Bip44AccountKey_Validate example_env a =
            (Some InvalidMnemonic, a, [IsMnemonicValid_call (Mnemonic ?cb)]) \<and>
          Bip44AccountKey_PrivateKey example_env a =
            (Inl InvalidMnemonic, a, [IsMnemonicValid_call (Mnemonic ?cb)])"
    by blast
  then obtain a where "accountKeyFromConfig example_env ?cb = Inr (Bip44 a)"
    and "Bip44AccountKey_PrivateKey example_env a =
            (Inl InvalidMnemonic, a, [IsMnemonicValid_call (Mnemonic ?cb)])"
    by blast
  with made have derived:
    "Bip44AccountKey_PrivateKey example_env ?kb = (Inl InvalidMnemonic, ?kb, [IsMnemonicValid_call []])"
    by simp
  have inlined: "accountKeyFromConfig example_env
     \<lparr>Type = ''hex'', Index = 0, SigAlgo = ECDSA_P256, HashAlgo = SHA3_256,
      PrivateKey = None, Mnemonic = [], DerivationPath = [], ResourceID = [], Location = []\<rparr>
   = Inr (Hex \<lparr>hex_base = \<lparr>keyType = ''hex'', index = 0, sigAlgo = ECDSA_P256, hashAlgo = SHA3_256\<rparr>,
               hex_privateKey = None\<rparr>)"
    using factory_validates_nothing [of
      "\<lparr>Type = ''hex'', Index = 0, SigAlgo = ECDSA_P256, HashAlgo = SHA3_256,
        PrivateKey = None, Mnemonic = [], DerivationPath = [], ResourceID = [], Location = []\<rparr>"
      example_env]
    by (simp add: KeyTypeHex_def)
  have filed: "accountKeyFromConfig example_env
     \<lparr>Type = ''file'', Index = 0, SigAlgo = ECDSA_P256, HashAlgo = SHA3_256,
      PrivateKey = None, Mnemonic = [], DerivationPath = [], ResourceID = [], Location = []\<rparr>
   = Inr (File \<lparr>file_base = \<lparr>keyType = ''file'', index = 0, sigAlgo = ECDSA_P256, hashAlgo = SHA3_256\<rparr>,
                file_privateKey = None, location = []\<rparr>)"
    using factory_validates_nothing [of
      "\<lparr>Type = ''file'', Index = 0, SigAlgo = ECDSA_P256, HashAlgo = SHA3_256,
        PrivateKey = None, Mnemonic = [], DerivationPath = [], ResourceID = [], Location = []\<rparr>"
      example_env]
    by (simp add: KeyTypeFile_def)
  have kms: "accountKeyFromConfig example_env
     \<lparr>Type = ''google-kms'', Index = 0, SigAlgo = ECDSA_P256, HashAlgo = SHA3_256,
      PrivateKey = None, Mnemonic = [], DerivationPath = [], ResourceID = [], Location = []\<rparr>
   = Inl (External ''invalid resource id'')"
    using factory_validates_nothing [of
      "\<lparr>Type = ''google-kms'', Index = 0, SigAlgo = ECDSA_P256, HashAlgo = SHA3_256,
        PrivateKey = None, Mnemonic = [], DerivationPath = [], ResourceID = [], Location = []\<rparr>"
      example_env]
    by (simp add: KeyTypeGoogleKMS_def example_env_def)
  from derived inlined filed kms show ?thesis by blast
qed

text \<open>The factory on a record of the derived variant whose mnemonic and derivation path are
  empty: it returns a key and no error.\<close>

theorem bip44_empty_fields_counterexample:
  "accountKeyFromConfig example_env
     \<lparr>Type = ''bip44'', Index = 0, SigAlgo = ECDSA_P256, HashAlgo = SHA3_256,
      PrivateKey = None, Mnemonic = [], DerivationPath = [], ResourceID = [], Location = []\<rparr>
   = Inr (Bip44 \<lparr>bip44_base = \<lparr>keyType = ''bip44'', index = 0, sigAlgo = ECDSA_P256,
                                hashAlgo = SHA3_256\<rparr>,
                 bip44_privateKey = None, mnemonic = [], derivationPath = []\<rparr>)"
  by (simp add: accountKeyFromConfig_def bip44KeyFromConfig_def KeyTypeHex_def KeyTypeBip44_def)

section \<open>Properties of the file-backed key\<close>

lemma FileAccountKey_ToConfig_fields:
  "Type (FileAccountKey_ToConfig f) = KeyTypeFile \<and>
   Index (FileAccountKey_ToConfig f) = 0 \<and>
   SigAlgo (FileAccountKey_ToConfig f) = sigAlgo (file_base f) \<and>
   HashAlgo (FileAccountKey_ToConfig f) = hashAlgo (file_base f) \<and>
   Location (FileAccountKey_ToConfig f) = location f \<and>
   PrivateKey (FileAccountKey_ToConfig f) = None"
  by (simp add: FileAccountKey_ToConfig_def)

lemma sibling_ToConfig_index:
  "Index (HexAccountKey_ToConfig h) = index (hex_base h)"
  "Index (KmsAccountKey_ToConfig E k) = index (kms_base k)"
  "Index (Bip44AccountKey_ToConfig a) = index (bip44_base a)"
  by (simp_all add: HexAccountKey_ToConfig_def KmsAccountKey_ToConfig_def
      Bip44AccountKey_ToConfig_def)

text \<open>
  C2. \<open>ToConfig\<close> of a file-backed key should emit the index of the key. The literal in
  \<open>FileAccountKey.ToConfig\<close> names no \<open>Index\<close>, unlike the literals of the three other
  variants, so the emitted index is \<open>0\<close>: a file key with index \<open>1\<close>, built by
  \<open>NewFileAccountKey\<close> or by the factory from a record with index \<open>1\<close>, comes back with
  index \<open>0\<close>.
\<close>

theorem FileAccountKey_ToConfig_index_lost:
  "index (file_base (NewFileAccountKey ''emulator.pkey'' 1 ECDSA_P256 SHA3_256)) = 1 \<and>
   Index (FileAccountKey_ToConfig (NewFileAccountKey ''emulator.pkey'' 1 ECDSA_P256 SHA3_256)) = 0 \<and>
   (accountKeyFromConfig example_env
     \<lparr>Type = ''file'', Index = 1, SigAlgo = ECDSA_P256, HashAlgo = SHA3_256,
      PrivateKey = None, Mnemonic = [], DerivationPath = [], ResourceID = [],
      Location = ''emulator.pkey''\<rparr>
    = Inr (File \<lparr>file_base = \<lparr>keyType = ''file'', index = 1, sigAlgo = ECDSA_P256,
                                hashAlgo = SHA3_256\<rparr>,
                 file_privateKey = None, location = ''emulator.pkey''\<rparr>)) \<and>
   AccountKey_ToConfig example_env
     (File \<lparr>file_base = \<lparr>keyType = ''file'', index = 1, sigAlgo = ECDSA_P256, hashAlgo = SHA3_256\<rparr>,
            file_privateKey = None, location = ''emulator.pkey''\<rparr>)
    = \<lparr>Type = ''file'', Index = 0, SigAlgo = ECDSA_P256, HashAlgo = SHA3_256,
       PrivateKey = None, Mnemonic = [], DerivationPath = [], ResourceID = [],
       Location = ''emulator.pkey''\<rparr>"
  by (simp add: NewFileAccountKey_def FileAccountKey_ToConfig_def AccountKey_ToConfig_def
      accountKeyFromConfig_def fileKeyFromConfig_def baseKeyFromConfig_def
      KeyTypeHex_def KeyTypeBip44_def KeyTypeGoogleKMS_def KeyTypeFile_def)

text \<open>
  C10. \<open>Validate\<close> of a file-backed key returns no error, leaves the key as it is and
  calls nothing, whatever the file system holds. When the file cannot be read, or its
  content cannot be decoded, it is \<open>PrivateKey\<close> and \<open>Signer\<close> that return the error.
\<close>

theorem FileAccountKey_Validate_noop:
  "FileAccountKey_Validate E f = (None, f, []) \<and>
   (file_privateKey f = None \<and> os_ReadFile E (location f) = Inl err \<longrightarrow>
      FileAccountKey_PrivateKey E f =
        (Inl (KeyFileUnreadable (location f) err), f, [ReadFile_call (location f)]) \<and>
      fst (FileAccountKey_Signer E f) = Inl (KeyFileUnreadable (location f) err)) \<and>
   (file_privateKey f = None \<and> os_ReadFile E (location f) = Inr content \<and>
    crypto_DecodePrivateKeyHex E (sigAlgo (file_base f)) (strings_TrimPrefix content ''0x'') = Inl err
      \<longrightarrow>
      fst (FileAccountKey_PrivateKey E f) = Inl (KeyDecodeError (location f) err) \<and>
      fst (FileAccountKey_Signer E f) = Inl (KeyDecodeError (location f) err))"
  by (simp add: FileAccountKey_Validate_def baseAccountKey_Validate_def
      FileAccountKey_PrivateKey_def FileAccountKey_Signer_def)

theorem FileAccountKey_Validate_noop_witness:
  "FileAccountKey_Validate example_env (NewFileAccountKey ''missing.pkey'' 0 ECDSA_P256 SHA3_256)
     = (None, NewFileAccountKey ''missing.pkey'' 0 ECDSA_P256 SHA3_256, []) \<and>
   fst (FileAccountKey_PrivateKey example_env
          (NewFileAccountKey ''missing.pkey'' 0 ECDSA_P256 SHA3_256))
     = Inl (KeyFileUnreadable ''missing.pkey'' (External ''no such file or directory'')) \<and>
   FileAccountKey_Validate example_env (NewFileAccountKey ''broken.pkey'' 0 ECDSA_P256 SHA3_256)
     = (None, NewFileAccountKey ''broken.pkey'' 0 ECDSA_P256 SHA3_256, []) \<and>
   fst (FileAccountKey_PrivateKey example_env
          (NewFileAccountKey ''broken.pkey'' 0 ECDSA_P256 SHA3_256))
     = Inl (KeyDecodeError ''broken.pkey'' (External ''invalid hex string''))"
  using
    FileAccountKey_Validate_noop [of example_env
      "NewFileAccountKey ''missing.pkey'' 0 ECDSA_P256 SHA3_256"
      "External ''no such file or directory''"]
    FileAccountKey_Validate_noop [of example_env
      "NewFileAccountKey ''broken.pkey'' 0 ECDSA_P256 SHA3_256"
      "External ''invalid hex string''" "''0xzz''"]
  by (simp add: NewFileAccountKey_def example_env_def strings_TrimPrefix_def)

section \<open>Properties of accounts\<close>

text \<open>
  C5 (as amended). \<open>DefaultKey\<close> has no error result and no check of the length: on an
  account without keys the index expression \<open>a.keys[0]\<close> panics with Go's index-out-of-range
  error for index 0 and length 0, and on every other account the method returns the first
  key.
\<close>

theorem DefaultKey_outcome:
  "(keys a = [] \<longrightarrow> Account_DefaultKey a = Panics (IndexOutOfRange 0 0)) \<and>
   (keys a \<noteq> [] \<longrightarrow> Account_DefaultKey a = Returns (hd (keys a)))"
  by (cases "keys a") (simp_all add: Account_DefaultKey_def)

theorem DefaultKey_outcome_witness:
  "Account_DefaultKey \<lparr>name = [], address = 1, keys = []\<rparr> = Panics (IndexOutOfRange 0 0) \<and>
   Account_DefaultKey (AccountFromAddressAndKey 1 (crypto_PrivateKey ECDSA_P256 [1]))
     = Returns (Hex (NewHexAccountKeyFromPrivateKey 0 SHA3_256 (crypto_PrivateKey ECDSA_P256 [1])))"
  using DefaultKey_outcome [of "\<lparr>name = [], address = 1, keys = []\<rparr>"]
    DefaultKey_outcome [of "AccountFromAddressAndKey 1 (crypto_PrivateKey ECDSA_P256 [1])"]
  by (simp add: AccountFromAddressAndKey_def)

text \<open>\<open>DefaultKey\<close> on an account without keys: a panic, not an error value.\<close>

theorem DefaultKey_empty_counterexample:
  "Account_DefaultKey \<lparr>name = ''emulator-account'', address = 0, keys = []\<rparr>
     = Panics (IndexOutOfRange 0 0)"
  by (simp add: Account_DefaultKey_def)

section \<open>Lazy materialisation\<close>

text \<open>What a successful call of \<open>Validate\<close>, \<open>PrivateKey\<close> or \<open>Signer\<close> leaves in the key,
  and which calls a materialisation makes.\<close>

lemma Validate_ok:
  assumes "Bip44AccountKey_Validate E a = (None, a', cs)"
  shows "bip44_privateKey a' \<noteq> None \<and> bip44_base a' = bip44_base a \<and>
         mnemonic a' = mnemonic a \<and> derivationPath a' = derivationPath a"
  using assms unfolding Bip44AccountKey_Validate_def Let_def
  by (auto split: if_splits sum.splits prod.splits)

lemma Bip44_PrivateKey_ok:
  assumes "Bip44AccountKey_PrivateKey E a = (Inr pk, a', cs)"
  shows "pk \<noteq> None \<and> bip44_privateKey a' = pk \<and> bip44_base a' = bip44_base a \<and>
         mnemonic a' = mnemonic a \<and> derivationPath a' = derivationPath a"
proof (cases "bip44_privateKey a")
  case None
  obtain r b ds where v: "Bip44AccountKey_Validate E a = (r, b, ds)"
    by (cases "Bip44AccountKey_Validate E a") auto
  with assms None have "r = None" "b = a'" "pk = bip44_privateKey a'"
    by (auto simp: Bip44AccountKey_PrivateKey_def split: option.splits)
  with v Validate_ok [of E a a' ds] show ?thesis by auto
next
  case (Some k)
  then have "Bip44AccountKey_PrivateKey E a = (Inr (Some k), a, [])"
    by (simp add: Bip44AccountKey_PrivateKey_def)
  with assms have "pk = Some k" "a' = a" by simp_all
  with Some show ?thesis by simp
qed

lemma Bip44_Signer_ok:
  assumes "Bip44AccountKey_Signer E a = (Inr s, a', cs)"
  shows "\<exists>pk. Bip44AccountKey_PrivateKey E a = (Inr pk, a', cs)"
proof -
  obtain r b ds where p: "Bip44AccountKey_PrivateKey E a = (r, b, ds)"
    by (cases "Bip44AccountKey_PrivateKey E a") auto
  with assms show ?thesis
    by (cases r) (simp_all add: Bip44AccountKey_Signer_def)
qed

lemma File_PrivateKey_ok:
  assumes "FileAccountKey_PrivateKey E f = (Inr pk, f', cs)"
  shows "pk \<noteq> None \<and> file_privateKey f' = pk \<and> file_base f' = file_base f \<and>
         location f' = location f"
proof (cases "file_privateKey f")
  case None
  with assms show ?thesis
    by (auto simp: FileAccountKey_PrivateKey_def split: sum.splits)
next
  case (Some k)
  then have "FileAccountKey_PrivateKey E f = (Inr (Some k), f, [])"
    by (simp add: FileAccountKey_PrivateKey_def)
  with assms have "pk = Some k" "f' = f" by simp_all
  with Some show ?thesis by simp
qed

lemma File_PrivateKey_reads:
  "FileAccountKey_PrivateKey E f = (r, f', cs) \<Longrightarrow> length (filter is_file_read cs) \<le> 1"
  unfolding FileAccountKey_PrivateKey_def
  by (auto split: option.splits sum.splits)

lemma Validate_loop_calls:
  "Validate_loop E k ns = (r, cs) \<Longrightarrow> \<exists>ms. cs = map NewChildKey_call ms"
proof (induction ns arbitrary: k r cs)
  case Nil
  then show ?case by simp
next
  case (Cons n ns)
  show ?case
  proof (cases "slip10_NewChildKey E k n")
    case (Inl e)
    with Cons.prems have "cs = map NewChildKey_call [n]" by simp
    then show ?thesis by blast
  next
    case (Inr child)
    obtain r' cs' where l: "Validate_loop E child ns = (r', cs')"
      by (cases "Validate_loop E child ns") auto
    from Cons.IH [OF l] obtain ms where "cs' = map NewChildKey_call ms" by blast
    with Cons.prems Inr l have "cs = map NewChildKey_call (n # ms)" by simp
    then show ?thesis by blast
  qed
qed

lemma Validate_loop_no_derivation_start:
  assumes "Validate_loop E k ns = (r, cs)"
  shows "filter is_seed_derivation cs = [] \<and> filter is_master_derivation cs = []"
proof -
  from Validate_loop_calls [OF assms] obtain ms where "cs = map NewChildKey_call ms" by blast
  then show ?thesis by (simp add: filter_map comp_def)
qed

lemma Validate_derivations:
  assumes "Bip44AccountKey_Validate E a = (r, a', cs)"
  shows "length (filter is_seed_derivation cs) \<le> 1 \<and> length (filter is_master_derivation cs) \<le> 1"
  using assms unfolding Bip44AccountKey_Validate_def Let_def
  by (auto split: if_splits sum.splits prod.splits dest: Validate_loop_no_derivation_start)

lemma Bip44_PrivateKey_derivations:
  assumes "Bip44AccountKey_PrivateKey E a = (r, a', cs)"
  shows "length (filter is_seed_derivation cs) \<le> 1 \<and> length (filter is_master_derivation cs) \<le> 1"
proof (cases "bip44_privateKey a")
  case None
  obtain r0 b ds where v: "Bip44AccountKey_Validate E a = (r0, b, ds)"
    by (cases "Bip44AccountKey_Validate E a") auto
  with assms None have "cs = ds"
    by (auto simp: Bip44AccountKey_PrivateKey_def split: option.splits)
  with Validate_derivations [OF v] show ?thesis by simp
next
  case (Some k)
  with assms show ?thesis by (auto simp: Bip44AccountKey_PrivateKey_def)
qed

text \<open>The methods evaluated in the concrete environment.\<close>

lemma example_file_run:
  "FileAccountKey_PrivateKey example_env (NewFileAccountKey ''emulator.pkey'' 0 ECDSA_P256 SHA3_256)
   = (Inr (Some (crypto_PrivateKey ECDSA_P256 [10, 11])),
      (NewFileAccountKey ''emulator.pkey'' 0 ECDSA_P256 SHA3_256)
        \<lparr>file_privateKey := Some (crypto_PrivateKey ECDSA_P256 [10, 11])\<rparr>,
      [ReadFile_call ''emulator.pkey'', DecodePrivateKeyHex_call ECDSA_P256 ''0a0b''])"
  by (simp add: FileAccountKey_PrivateKey_def NewFileAccountKey_def example_env_def
      strings_TrimPrefix_def)

lemma example_bip44_run:
  "Bip44AccountKey_PrivateKey example_env (example_bip44 ECDSA_P256)
   = (Inr (Some (crypto_PrivateKey ECDSA_P256 [1, 1, 2, 3, 0, 1])),
      (example_bip44 ECDSA_P256)\<lparr>bip44_privateKey := Some (crypto_PrivateKey ECDSA_P256 [1, 1, 2, 3, 0, 1])\<rparr>,
      [IsMnemonicValid_call example_mnemonic, ParseDerivationPath_call ''m/0/1'',
       NewSeed_call example_mnemonic [], NewMasterKeyWithCurve_call [1, 2, 3] CurveP256,
       NewChildKey_call 0, NewChildKey_call 1,
       DecodePrivateKey_call ECDSA_P256 [1, 1, 2, 3, 0, 1]])"
  by (simp add: Bip44AccountKey_PrivateKey_def Bip44AccountKey_Validate_def example_bip44_def
      example_env_def Validate_curve_def baseAccountKey_SigAlgo_def)

lemma example_bip44_unset_run:
  "Bip44AccountKey_Validate example_env (example_bip44 UnknownSignatureAlgorithm)
   = (None,
      (example_bip44 UnknownSignatureAlgorithm)\<lparr>bip44_privateKey := Some (crypto_PrivateKey ECDSA_P256 [2, 1, 2, 3, 0, 1])\<rparr>,
      [IsMnemonicValid_call example_mnemonic, ParseDerivationPath_call ''m/0/1'',
       NewSeed_call example_mnemonic [], NewMasterKeyWithCurve_call [1, 2, 3] CurveBitcoin,
       NewChildKey_call 0, NewChildKey_call 1,
       DecodePrivateKey_call ECDSA_P256 [2, 1, 2, 3, 0, 1]])"
  by (simp add: Bip44AccountKey_PrivateKey_def Bip44AccountKey_Validate_def example_bip44_def
      example_env_def Validate_curve_def baseAccountKey_SigAlgo_def)

text \<open>
  C8. When \<open>PrivateKey\<close> of a file-backed or of a derived key returns the key material, a
  second call on the key it leaves returns the same material and makes no call at all,
  whatever the file system and the libraries would answer by then; the first call read
  the file at most once, and derived the seed and the master key at most once. So the two
  calls together do the underlying work at most once.
\<close>

theorem PrivateKey_memoized:
  "(FileAccountKey_PrivateKey E f = (Inr pk, f1, cs) \<longrightarrow>
      FileAccountKey_PrivateKey E2 f1 = (Inr pk, f1, []) \<and>
      length (filter is_file_read cs) \<le> 1) \<and>
   (Bip44AccountKey_PrivateKey E a = (Inr pk, a1, cs) \<longrightarrow>
      Bip44AccountKey_PrivateKey E2 a1 = (Inr pk, a1, []) \<and>
      length (filter is_seed_derivation cs) \<le> 1 \<and>
      length (filter is_master_derivation cs) \<le> 1)"
proof (intro conjI impI)
  assume p: "FileAccountKey_PrivateKey E f = (Inr pk, f1, cs)"
  from File_PrivateKey_ok [OF p] obtain k where "file_privateKey f1 = Some k" "pk = Some k"
    by auto
  then show "FileAccountKey_PrivateKey E2 f1 = (Inr pk, f1, [])"
    by (simp add: FileAccountKey_PrivateKey_def)
  from File_PrivateKey_reads [OF p] show "length (filter is_file_read cs) \<le> 1" .
next
  assume p: "Bip44AccountKey_PrivateKey E a = (Inr pk, a1, cs)"
  from Bip44_PrivateKey_ok [OF p] obtain k where "bip44_privateKey a1 = Some k" "pk = Some k"
    by auto
  then show "Bip44AccountKey_PrivateKey E2 a1 = (Inr pk, a1, [])"
    by (simp add: Bip44AccountKey_PrivateKey_def)
  from Bip44_PrivateKey_derivations [OF p]
  show "length (filter is_seed_derivation cs) \<le> 1"
    and "length (filter is_master_derivation cs) \<le> 1" by simp_all
qed

theorem PrivateKey_memoized_witness:
  "FileAccountKey_PrivateKey example_env (NewFileAccountKey ''emulator.pkey'' 0 ECDSA_P256 SHA3_256)
   = (Inr (Some (crypto_PrivateKey ECDSA_P256 [10, 11])),
      (NewFileAccountKey ''emulator.pkey'' 0 ECDSA_P256 SHA3_256)
        \<lparr>file_privateKey := Some (crypto_PrivateKey ECDSA_P256 [10, 11])\<rparr>,
      [ReadFile_call ''emulator.pkey'', DecodePrivateKeyHex_call ECDSA_P256 ''0a0b'']) \<and>
   FileAccountKey_PrivateKey
     (example_env\<lparr>os_ReadFile := \<lambda>p. Inl (External ''no such file or directory'')\<rparr>)
     ((NewFileAccountKey ''emulator.pkey'' 0 ECDSA_P256 SHA3_256)
        \<lparr>file_privateKey := Some (crypto_PrivateKey ECDSA_P256 [10, 11])\<rparr>)
   = (Inr (Some (crypto_PrivateKey ECDSA_P256 [10, 11])),
      (NewFileAccountKey ''emulator.pkey'' 0 ECDSA_P256 SHA3_256)
        \<lparr>file_privateKey := Some (crypto_PrivateKey ECDSA_P256 [10, 11])\<rparr>,
      []) \<and>
   fst (Bip44AccountKey_PrivateKey example_env (example_bip44 ECDSA_P256))
   = Inr (Some (crypto_PrivateKey ECDSA_P256 [1, 1, 2, 3, 0, 1])) \<and>
   Bip44AccountKey_PrivateKey
     (example_env\<lparr>bip39_IsMnemonicValid := \<lambda>m. False\<rparr>)
     ((example_bip44 ECDSA_P256)
        \<lparr>bip44_privateKey := Some (crypto_PrivateKey ECDSA_P256 [1, 1, 2, 3, 0, 1])\<rparr>)
   = (Inr (Some (crypto_PrivateKey ECDSA_P256 [1, 1, 2, 3, 0, 1])),
      (example_bip44 ECDSA_P256)
        \<lparr>bip44_privateKey := Some (crypto_PrivateKey ECDSA_P256 [1, 1, 2, 3, 0, 1])\<rparr>,
      [])"
  using
    PrivateKey_memoized [where E = example_env
      and ?E2.0 = "example_env\<lparr>os_ReadFile := \<lambda>p. Inl (External ''no such file or directory'')\<rparr>"
      and f = "NewFileAccountKey ''emulator.pkey'' 0 ECDSA_P256 SHA3_256"
      and pk = "Some (crypto_PrivateKey ECDSA_P256 [10, 11])"
      and ?f1.0 = "(NewFileAccountKey ''emulator.pkey'' 0 ECDSA_P256 SHA3_256)
        \<lparr>file_privateKey := Some (crypto_PrivateKey ECDSA_P256 [10, 11])\<rparr>"
      and cs = "[ReadFile_call ''emulator.pkey'', DecodePrivateKeyHex_call ECDSA_P256 ''0a0b'']"]
    PrivateKey_memoized [where E = example_env
      and ?E2.0 = "example_env\<lparr>bip39_IsMnemonicValid := \<lambda>m. False\<rparr>"
      and a = "example_bip44 ECDSA_P256"
      and pk = "Some (crypto_PrivateKey ECDSA_P256 [1, 1, 2, 3, 0, 1])"
      and ?a1.0 = "(example_bip44 ECDSA_P256)
        \<lparr>bip44_privateKey := Some (crypto_PrivateKey ECDSA_P256 [1, 1, 2, 3, 0, 1])\<rparr>"
      and cs = "[IsMnemonicValid_call example_mnemonic, ParseDerivationPath_call ''m/0/1'',
       NewSeed_call example_mnemonic [], NewMasterKeyWithCurve_call [1, 2, 3] CurveP256,
       NewChildKey_call 0, NewChildKey_call 1,
       DecodePrivateKey_call ECDSA_P256 [1, 1, 2, 3, 0, 1]]"]
    example_file_run example_bip44_run
  by simp

section \<open>What the configuration record of a key holds\<close>

text \<open>The methods of the interface on a file-backed and on a derived key are the methods of
  the variant, and a successful \<open>Signer\<close> is a successful \<open>PrivateKey\<close>.\<close>

lemma File_Signer_ok:
  assumes "FileAccountKey_Signer E f = (Inr s, f', cs)"
  shows "\<exists>pk. FileAccountKey_PrivateKey E f = (Inr pk, f', cs)"
proof -
  obtain r b ds where p: "FileAccountKey_PrivateKey E f = (r, b, ds)"
    by (cases "FileAccountKey_PrivateKey E f") auto
  with assms show ?thesis
    by (cases r) (simp_all add: FileAccountKey_Signer_def)
qed

lemma AccountKey_PrivateKey_File:
  assumes "AccountKey_PrivateKey E (File f) = (r, k', cs)"
  shows "\<exists>f'. k' = File f' \<and> FileAccountKey_PrivateKey E f = (r, f', cs)"
  using assms by (auto simp: AccountKey_PrivateKey_def split: prod.splits)

lemma AccountKey_Signer_File:
  assumes "AccountKey_Signer E (File f) = (r, k', cs)"
  shows "\<exists>f'. k' = File f' \<and> FileAccountKey_Signer E f = (r, f', cs)"
  using assms by (auto simp: AccountKey_Signer_def split: prod.splits)

lemma AccountKey_PrivateKey_Bip44:
  assumes "AccountKey_PrivateKey E (Bip44 a) = (r, k', cs)"
  shows "\<exists>a'. k' = Bip44 a' \<and> Bip44AccountKey_PrivateKey E a = (r, a', cs)"
  using assms by (auto simp: AccountKey_PrivateKey_def split: prod.splits)

lemma AccountKey_Signer_Bip44:
  assumes "AccountKey_Signer E (Bip44 a) = (r, k', cs)"
  shows "\<exists>a'. k' = Bip44 a' \<and> Bip44AccountKey_Signer E a = (r, a', cs)"
  using assms by (auto simp: AccountKey_Signer_def split: prod.splits)

lemma example_file_key_run:
  "AccountKey_PrivateKey example_env (File (NewFileAccountKey ''emulator.pkey'' 0 ECDSA_P256 SHA3_256))
   = (Inr (Some (crypto_PrivateKey ECDSA_P256 [10, 11])),
      File ((NewFileAccountKey ''emulator.pkey'' 0 ECDSA_P256 SHA3_256)
        \<lparr>file_privateKey := Some (crypto_PrivateKey ECDSA_P256 [10, 11])\<rparr>),
      [ReadFile_call ''emulator.pkey'', DecodePrivateKeyHex_call ECDSA_P256 ''0a0b''])"
  by (simp add: AccountKey_PrivateKey_def example_file_run)

lemma example_file_key_signer:
  "AccountKey_Signer example_env (File (NewFileAccountKey ''emulator.pkey'' 0 ECDSA_P256 SHA3_256))
   = (Inr (InMemorySigner (crypto_PrivateKey ECDSA_P256 [10, 11]) SHA3_256),
      File ((NewFileAccountKey ''emulator.pkey'' 0 ECDSA_P256 SHA3_256)
        \<lparr>file_privateKey := Some (crypto_PrivateKey ECDSA_P256 [10, 11])\<rparr>),
      [ReadFile_call ''emulator.pkey'', DecodePrivateKeyHex_call ECDSA_P256 ''0a0b''])"
  by (simp add: AccountKey_Signer_def FileAccountKey_Signer_def example_file_run)
     (simp add: example_env_def NewFileAccountKey_def baseAccountKey_HashAlgo_def)

lemma example_bip44_key_run:
  "AccountKey_PrivateKey example_env (Bip44 (example_bip44 ECDSA_P256))
   = (Inr (Some (crypto_PrivateKey ECDSA_P256 [1, 1, 2, 3, 0, 1])),
      Bip44 ((example_bip44 ECDSA_P256)
        \<lparr>bip44_privateKey := Some (crypto_PrivateKey ECDSA_P256 [1, 1, 2, 3, 0, 1])\<rparr>),
      [IsMnemonicValid_call example_mnemonic, ParseDerivationPath_call ''m/0/1'',
       NewSeed_call example_mnemonic [], NewMasterKeyWithCurve_call [1, 2, 3] CurveP256,
       NewChildKey_call 0, NewChildKey_call 1,
       DecodePrivateKey_call ECDSA_P256 [1, 1, 2, 3, 0, 1]])"
  by (simp add: AccountKey_PrivateKey_def example_bip44_run)

lemma example_bip44_key_signer:
  "AccountKey_Signer example_env (Bip44 (example_bip44 ECDSA_P256))
   = (Inr (InMemorySigner (crypto_PrivateKey ECDSA_P256 [1, 1, 2, 3, 0, 1]) SHA3_256),
      Bip44 ((example_bip44 ECDSA_P256)
        \<lparr>bip44_privateKey := Some (crypto_PrivateKey ECDSA_P256 [1, 1, 2, 3, 0, 1])\<rparr>),
      [IsMnemonicValid_call example_mnemonic, ParseDerivationPath_call ''m/0/1'',
       NewSeed_call example_mnemonic [], NewMasterKeyWithCurve_call [1, 2, 3] CurveP256,
       NewChildKey_call 0, NewChildKey_call 1,
       DecodePrivateKey_call ECDSA_P256 [1, 1, 2, 3, 0, 1]])"
  by (simp add: AccountKey_Signer_def Bip44AccountKey_Signer_def example_bip44_run)
     (simp add: example_env_def example_bip44_def baseAccountKey_HashAlgo_def)

lemma example_kms_key_signer:
  "AccountKey_Signer example_env (Kms example_kms) =
     (Inr (KMSSigner (kmsKey example_kms)), Kms example_kms, [])"
  by (simp add: AccountKey_Signer_def KmsAccountKey_Signer_def example_env_def)

text \<open>The record of a file-backed key is built from the base and the location alone:
  the cached private key has no part in it.\<close>

lemma FileAccountKey_ToConfig_cache:
  "FileAccountKey_ToConfig (f\<lparr>file_privateKey := x\<rparr>) = FileAccountKey_ToConfig f"
  by (simp add: FileAccountKey_ToConfig_def)

lemma FileAccountKey_ToConfig_same:
  assumes "file_base f' = file_base f" and "location f' = location f"
  shows "FileAccountKey_ToConfig f' = FileAccountKey_ToConfig f"
  using assms by (simp add: FileAccountKey_ToConfig_def)

text \<open>
  C1 (as amended). The record that \<open>ToConfig\<close> returns for a file-backed or a KMS-backed
  key holds no private key, in every state of the key and so also after a successful
  \<open>PrivateKey\<close> or \<open>Signer\<close> (\<open>PrivateKey\<close> of a KMS-backed key never succeeds). For a
  file-backed key every field of the record other than the index is fixed by the tag
  constant, the stored algorithms and the location, the private-key field and the fields
  of the other variants are empty, and the record is the same whatever the cached private
  key is: after a successful \<open>PrivateKey\<close> or \<open>Signer\<close> it is the record of the key before
  the call. For a KMS-backed key the record is tag, index, algorithms and the resource
  identifier of the key handle, with every other field empty, and \<open>Signer\<close> leaves the key
  as it is. The record of a derived key carries tag, index, algorithms, mnemonic and
  derivation path, and its private-key field is a copy of the field \<open>privateKey\<close> of the
  key: \<open>nil\<close> until the key is materialised, and the derived private key after a successful
  \<open>PrivateKey\<close> or \<open>Signer\<close>.
\<close>

theorem ToConfig_private_key:
  "PrivateKey (AccountKey_ToConfig E (File f)) = None \<and>
   PrivateKey (AccountKey_ToConfig E (Kms k)) = None \<and>
   (AccountKey_ToConfig E (File f))\<lparr>Index := i\<rparr> =
     \<lparr>Type = KeyTypeFile, Index = i,
      SigAlgo = sigAlgo (file_base f), HashAlgo = hashAlgo (file_base f),
      PrivateKey = None, Mnemonic = [], DerivationPath = [], ResourceID = [],
      Location = location f\<rparr> \<and>
   AccountKey_ToConfig E (File (f\<lparr>file_privateKey := x\<rparr>)) = AccountKey_ToConfig E (File f) \<and>
   AccountKey_ToConfig E (Kms k) =
     \<lparr>Type = keyType (kms_base k), Index = index (kms_base k),
      SigAlgo = sigAlgo (kms_base k), HashAlgo = hashAlgo (kms_base k),
      PrivateKey = None, Mnemonic = [], DerivationPath = [],
      ResourceID = cloudkms_ResourceID E (kmsKey k), Location = []\<rparr> \<and>
   (AccountKey_PrivateKey E1 (File f) = (Inr pk, k1, cs) \<longrightarrow>
      PrivateKey (AccountKey_ToConfig E k1) = None \<and>
      AccountKey_ToConfig E k1 = AccountKey_ToConfig E (File f)) \<and>
   (AccountKey_Signer E1 (File f) = (Inr s, k1, cs) \<longrightarrow>
      PrivateKey (AccountKey_ToConfig E k1) = None \<and>
      AccountKey_ToConfig E k1 = AccountKey_ToConfig E (File f)) \<and>
   (AccountKey_Signer E1 (Kms k) = (Inr s, k1, cs) \<longrightarrow>
      PrivateKey (AccountKey_ToConfig E k1) = None \<and>
      AccountKey_ToConfig E k1 = AccountKey_ToConfig E (Kms k)) \<and>
   fst (AccountKey_PrivateKey E1 (Kms k)) = Inl KeyNotAccessible \<and>
   AccountKey_ToConfig E (Bip44 a) =
     \<lparr>Type = keyType (bip44_base a), Index = index (bip44_base a),
      SigAlgo = sigAlgo (bip44_base a), HashAlgo = hashAlgo (bip44_base a),
      PrivateKey = bip44_privateKey a, Mnemonic = mnemonic a,
      DerivationPath = derivationPath a, ResourceID = [], Location = []\<rparr> \<and>
   (AccountKey_PrivateKey E1 (Bip44 a) = (Inr pk, k1, cs) \<longrightarrow>
      pk \<noteq> None \<and>
      AccountKey_ToConfig E k1 = (AccountKey_ToConfig E (Bip44 a))\<lparr>PrivateKey := pk\<rparr>) \<and>
   (AccountKey_Signer E1 (Bip44 a) = (Inr s, k1, cs) \<longrightarrow>
      PrivateKey (AccountKey_ToConfig E k1) \<noteq> None \<and>
      AccountKey_ToConfig E k1 =
        (AccountKey_ToConfig E (Bip44 a))\<lparr>PrivateKey := PrivateKey (AccountKey_ToConfig E k1)\<rparr>)"
proof (intro conjI impI)
  show "PrivateKey (AccountKey_ToConfig E (File f)) = None"
    by (simp add: AccountKey_ToConfig_def FileAccountKey_ToConfig_def)
  show "PrivateKey (AccountKey_ToConfig E (Kms k)) = None"
    by (simp add: AccountKey_ToConfig_def KmsAccountKey_ToConfig_def)
  show "(AccountKey_ToConfig E (File f))\<lparr>Index := i\<rparr> =
     \<lparr>Type = KeyTypeFile, Index = i,
      SigAlgo = sigAlgo (file_base f), HashAlgo = hashAlgo (file_base f),
      PrivateKey = None, Mnemonic = [], DerivationPath = [], ResourceID = [],
      Location = location f\<rparr>"
    by (simp add: AccountKey_ToConfig_def FileAccountKey_ToConfig_def)
  show "AccountKey_ToConfig E (File (f\<lparr>file_privateKey := x\<rparr>)) = AccountKey_ToConfig E (File f)"
    by (simp add: AccountKey_ToConfig_def FileAccountKey_ToConfig_cache)
  show "AccountKey_ToConfig E (Kms k) =
     \<lparr>Type = keyType (kms_base k), Index = index (kms_base k),
      SigAlgo = sigAlgo (kms_base k), HashAlgo = hashAlgo (kms_base k),
      PrivateKey = None, Mnemonic = [], DerivationPath = [],
      ResourceID = cloudkms_ResourceID E (kmsKey k), Location = []\<rparr>"
    by (simp add: AccountKey_ToConfig_def KmsAccountKey_ToConfig_def)
  show "fst (AccountKey_PrivateKey E1 (Kms k)) = Inl KeyNotAccessible"
    by (simp add: AccountKey_PrivateKey_def KmsAccountKey_PrivateKey_def)
  show "AccountKey_ToConfig E (Bip44 a) =
     \<lparr>Type = keyType (bip44_base a), Index = index (bip44_base a),
      SigAlgo = sigAlgo (bip44_base a), HashAlgo = hashAlgo (bip44_base a),
      PrivateKey = bip44_privateKey a, Mnemonic = mnemonic a,
      DerivationPath = derivationPath a, ResourceID = [], Location = []\<rparr>"
    by (simp add: AccountKey_ToConfig_def Bip44AccountKey_ToConfig_def)
next
  assume "AccountKey_PrivateKey E1 (File f) = (Inr pk, k1, cs)"
  then obtain f' where k1: "k1 = File f'" and p: "FileAccountKey_PrivateKey E1 f = (Inr pk, f', cs)"
    by (auto dest: AccountKey_PrivateKey_File)
  from k1 show "PrivateKey (AccountKey_ToConfig E k1) = None"
    by (simp add: AccountKey_ToConfig_def FileAccountKey_ToConfig_def)
  from File_PrivateKey_ok [OF p] have "FileAccountKey_ToConfig f' = FileAccountKey_ToConfig f"
    by (intro FileAccountKey_ToConfig_same) simp_all
  with k1 show "AccountKey_ToConfig E k1 = AccountKey_ToConfig E (File f)"
    by (simp add: AccountKey_ToConfig_def)
next
  assume "AccountKey_Signer E1 (File f) = (Inr s, k1, cs)"
  then obtain f' where k1: "k1 = File f'" and sg: "FileAccountKey_Signer E1 f = (Inr s, f', cs)"
    by (auto dest: AccountKey_Signer_File)
  from File_Signer_ok [OF sg] obtain pk' where p: "FileAccountKey_PrivateKey E1 f = (Inr pk', f', cs)"
    by blast
  from k1 show "PrivateKey (AccountKey_ToConfig E k1) = None"
    by (simp add: AccountKey_ToConfig_def FileAccountKey_ToConfig_def)
  from File_PrivateKey_ok [OF p] have "FileAccountKey_ToConfig f' = FileAccountKey_ToConfig f"
    by (intro FileAccountKey_ToConfig_same) simp_all
  with k1 show "AccountKey_ToConfig E k1 = AccountKey_ToConfig E (File f)"
    by (simp add: AccountKey_ToConfig_def)
next
  assume "AccountKey_Signer E1 (Kms k) = (Inr s, k1, cs)"
  then have k1: "k1 = Kms k" by (simp add: AccountKey_Signer_def)
  then show "PrivateKey (AccountKey_ToConfig E k1) = None"
    by (simp add: AccountKey_ToConfig_def KmsAccountKey_ToConfig_def)
  from k1 show "AccountKey_ToConfig E k1 = AccountKey_ToConfig E (Kms k)" by simp
next
  assume "AccountKey_PrivateKey E1 (Bip44 a) = (Inr pk, k1, cs)"
  then obtain a' where k1: "k1 = Bip44 a'" and p: "Bip44AccountKey_PrivateKey E1 a = (Inr pk, a', cs)"
    by (auto dest: AccountKey_PrivateKey_Bip44)
  from Bip44_PrivateKey_ok [OF p] show "pk \<noteq> None" by simp
  from Bip44_PrivateKey_ok [OF p] k1
  show "AccountKey_ToConfig E k1 = (AccountKey_ToConfig E (Bip44 a))\<lparr>PrivateKey := pk\<rparr>"
    by (simp add: AccountKey_ToConfig_def Bip44AccountKey_ToConfig_def)
next
  assume "AccountKey_Signer E1 (Bip44 a) = (Inr s, k1, cs)"
  then obtain a' where k1: "k1 = Bip44 a'" and sg: "Bip44AccountKey_Signer E1 a = (Inr s, a', cs)"
    by (auto dest: AccountKey_Signer_Bip44)
  from Bip44_Signer_ok [OF sg] obtain pk where p: "Bip44AccountKey_PrivateKey E1 a = (Inr pk, a', cs)"
    by blast
  from Bip44_PrivateKey_ok [OF p] k1
  show "PrivateKey (AccountKey_ToConfig E k1) \<noteq> None"
    by (simp add: AccountKey_ToConfig_def Bip44AccountKey_ToConfig_def)
  from Bip44_PrivateKey_ok [OF p] k1
  show "AccountKey_ToConfig E k1 =
        (AccountKey_ToConfig E (Bip44 a))\<lparr>PrivateKey := PrivateKey (AccountKey_ToConfig E k1)\<rparr>"
    by (simp add: AccountKey_ToConfig_def Bip44AccountKey_ToConfig_def)
qed



theorem ToConfig_private_key_witness:
  "PrivateKey (AccountKey_ToConfig example_env
      (fst (snd (AccountKey_PrivateKey example_env
         (File (NewFileAccountKey ''emulator.pkey'' 0 ECDSA_P256 SHA3_256)))))) = None \<and>
   PrivateKey (AccountKey_ToConfig example_env
      (fst (snd (AccountKey_Signer example_env
         (File (NewFileAccountKey ''emulator.pkey'' 0 ECDSA_P256 SHA3_256)))))) = None \<and>
   PrivateKey (AccountKey_ToConfig example_env
      (fst (snd (AccountKey_Signer example_env (Kms example_kms))))) = None \<and>
   AccountKey_ToConfig example_env
      (fst (snd (AccountKey_PrivateKey example_env (Bip44 (example_bip44 ECDSA_P256)))))
     = (AccountKey_ToConfig example_env (Bip44 (example_bip44 ECDSA_P256)))
         \<lparr>PrivateKey := Some (crypto_PrivateKey ECDSA_P256 [1, 1, 2, 3, 0, 1])\<rparr> \<and>
   PrivateKey (AccountKey_ToConfig example_env
      (fst (snd (AccountKey_Signer example_env (Bip44 (example_bip44 ECDSA_P256)))))) \<noteq> None \<and>
   AccountKey_ToConfig example_env
      (fst (snd (AccountKey_PrivateKey example_env
         (File (NewFileAccountKey ''emulator.pkey'' 0 ECDSA_P256 SHA3_256)))))
     = AccountKey_ToConfig example_env
         (File (NewFileAccountKey ''emulator.pkey'' 0 ECDSA_P256 SHA3_256)) \<and>
   AccountKey_ToConfig example_env
      (fst (snd (AccountKey_Signer example_env
         (File (NewFileAccountKey ''emulator.pkey'' 0 ECDSA_P256 SHA3_256)))))
     = AccountKey_ToConfig example_env
         (File (NewFileAccountKey ''emulator.pkey'' 0 ECDSA_P256 SHA3_256)) \<and>
   (AccountKey_ToConfig example_env
      (fst (snd (AccountKey_PrivateKey example_env
         (File (NewFileAccountKey ''emulator.pkey'' 0 ECDSA_P256 SHA3_256))))))\<lparr>Index := 0\<rparr>
     = \<lparr>Type = ''file'', Index = 0, SigAlgo = ECDSA_P256, HashAlgo = SHA3_256,
        PrivateKey = None, Mnemonic = [], DerivationPath = [], ResourceID = [],
        Location = ''emulator.pkey''\<rparr> \<and>
   AccountKey_ToConfig example_env (fst (snd (AccountKey_Signer example_env (Kms example_kms))))
     = \<lparr>Type = ''google-kms'', Index = 0, SigAlgo = ECDSA_P256, HashAlgo = SHA2_256,
        PrivateKey = None, Mnemonic = [], DerivationPath = [], ResourceID = ''flow'',
        Location = []\<rparr>"
proof -
  let ?f = "NewFileAccountKey ''emulator.pkey'' 0 ECDSA_P256 SHA3_256"
  let ?pkf = "Some (crypto_PrivateKey ECDSA_P256 [10, 11])"
  let ?f1 = "?f\<lparr>file_privateKey := ?pkf\<rparr>"
  let ?csf = "[ReadFile_call ''emulator.pkey'', DecodePrivateKeyHex_call ECDSA_P256 ''0a0b'']"
  let ?b = "example_bip44 ECDSA_P256"
  let ?pkb = "Some (crypto_PrivateKey ECDSA_P256 [1, 1, 2, 3, 0, 1])"
  let ?b1 = "?b\<lparr>bip44_privateKey := ?pkb\<rparr>"
  note t = ToConfig_private_key [where E = example_env and ?E1.0 = example_env and i = 0
      and x = ?pkf]
  note tf = t [where f = ?f and pk = ?pkf and ?k1.0 = "File ?f1" and cs = ?csf
      and s = "InMemorySigner (crypto_PrivateKey ECDSA_P256 [10, 11]) SHA3_256"]
  have a: "PrivateKey (AccountKey_ToConfig example_env (File ?f1)) = None"
    and a': "AccountKey_ToConfig example_env (File ?f1) = AccountKey_ToConfig example_env (File ?f)"
    using tf example_file_key_run by blast+
  have b: "PrivateKey (AccountKey_ToConfig example_env (File ?f1)) = None"
    and b': "AccountKey_ToConfig example_env (File ?f1) = AccountKey_ToConfig example_env (File ?f)"
    using tf example_file_key_signer by blast+
  have r0: "(AccountKey_ToConfig example_env (File ?f))\<lparr>Index := 0\<rparr> =
     \<lparr>Type = KeyTypeFile, Index = 0,
      SigAlgo = sigAlgo (file_base ?f), HashAlgo = hashAlgo (file_base ?f),
      PrivateKey = None, Mnemonic = [], DerivationPath = [], ResourceID = [],
      Location = location ?f\<rparr>"
    using tf by blast
  have r: "(AccountKey_ToConfig example_env (File ?f1))\<lparr>Index := 0\<rparr>
     = \<lparr>Type = ''file'', Index = 0, SigAlgo = ECDSA_P256, HashAlgo = SHA3_256,
        PrivateKey = None, Mnemonic = [], DerivationPath = [], ResourceID = [],
        Location = ''emulator.pkey''\<rparr>"
    unfolding a' r0 by (simp add: NewFileAccountKey_def KeyTypeFile_def)
  note tk = t [where k = example_kms and ?k1.0 = "Kms example_kms" and cs = "[]"
      and s = "KMSSigner (kmsKey example_kms)"]
  have c: "PrivateKey (AccountKey_ToConfig example_env (Kms example_kms)) = None"
    using tk by blast
  have c0: "AccountKey_ToConfig example_env (Kms example_kms) =
     \<lparr>Type = keyType (kms_base example_kms), Index = index (kms_base example_kms),
      SigAlgo = sigAlgo (kms_base example_kms), HashAlgo = hashAlgo (kms_base example_kms),
      PrivateKey = None, Mnemonic = [], DerivationPath = [],
      ResourceID = cloudkms_ResourceID example_env (kmsKey example_kms), Location = []\<rparr>"
    using tk by blast
  have c': "AccountKey_ToConfig example_env (Kms example_kms)
     = \<lparr>Type = ''google-kms'', Index = 0, SigAlgo = ECDSA_P256, HashAlgo = SHA2_256,
        PrivateKey = None, Mnemonic = [], DerivationPath = [], ResourceID = ''flow'',
        Location = []\<rparr>"
    unfolding c0 by (simp add: example_kms_def example_env_def)
  note tb = t [where a = ?b and pk = ?pkb and ?k1.0 = "Bip44 ?b1"
      and cs = "[IsMnemonicValid_call example_mnemonic, ParseDerivationPath_call ''m/0/1'',
       NewSeed_call example_mnemonic [], NewMasterKeyWithCurve_call [1, 2, 3] CurveP256,
       NewChildKey_call 0, NewChildKey_call 1,
       DecodePrivateKey_call ECDSA_P256 [1, 1, 2, 3, 0, 1]]"
      and s = "InMemorySigner (crypto_PrivateKey ECDSA_P256 [1, 1, 2, 3, 0, 1]) SHA3_256"]
  have d: "AccountKey_ToConfig example_env (Bip44 ?b1)
     = (AccountKey_ToConfig example_env (Bip44 ?b))\<lparr>PrivateKey := ?pkb\<rparr>"
    using tb example_bip44_key_run by blast
  have e: "PrivateKey (AccountKey_ToConfig example_env (Bip44 ?b1)) \<noteq> None"
    using tb example_bip44_key_signer by blast
  show ?thesis
    unfolding example_file_key_run example_file_key_signer example_kms_key_signer
      example_bip44_key_run example_bip44_key_signer fst_conv snd_conv
    using a a' r c c' d e by blast
qed

text \<open>\<open>PrivateKey\<close> on a derived key, then \<open>ToConfig\<close> on the key it leaves: the record holds
  the derived private key.\<close>

theorem derived_ToConfig_private_key_counterexample:
  "fst (AccountKey_PrivateKey example_env (Bip44 (example_bip44 ECDSA_P256)))
     = Inr (Some (crypto_PrivateKey ECDSA_P256 [1, 1, 2, 3, 0, 1])) \<and>
   PrivateKey (AccountKey_ToConfig example_env
      (fst (snd (AccountKey_PrivateKey example_env (Bip44 (example_bip44 ECDSA_P256))))))
     = Some (crypto_PrivateKey ECDSA_P256 [1, 1, 2, 3, 0, 1])"
  by (simp add: AccountKey_PrivateKey_def example_bip44_run AccountKey_ToConfig_def
      Bip44AccountKey_ToConfig_def)

section \<open>The curve of a derived key\<close>

lemma Validate_curve_stored:
  "(Validate_curve a = CurveP256) = (sigAlgo (bip44_base a) = ECDSA_P256)"
  by (simp add: Validate_curve_def)

lemma Validate_curve_unset:
  assumes "sigAlgo (bip44_base a) = UnknownSignatureAlgorithm"
  shows "baseAccountKey_SigAlgo (bip44_base a) = ECDSA_P256 \<and> Validate_curve a = CurveBitcoin"
  using assms by (simp add: baseAccountKey_SigAlgo_def Validate_curve_def)

lemma Validate_curve_set:
  assumes "sigAlgo (bip44_base a) \<noteq> UnknownSignatureAlgorithm"
  shows "(Validate_curve a = CurveP256) = (baseAccountKey_SigAlgo (bip44_base a) = ECDSA_P256)"
  using assms by (simp add: baseAccountKey_SigAlgo_def Validate_curve_def)

text \<open>
  C9. The curve of the derivation should follow the signature algorithm as \<open>SigAlgo()\<close>
  resolves it. \<open>Validate\<close> compares the stored field \<open>sigAlgo\<close>, not \<open>SigAlgo()\<close>, with
  \<open>ECDSA_P256\<close>: for a key whose algorithm is unset, \<open>SigAlgo()\<close> is \<open>ECDSA_P256\<close>, the master
  key is derived on \<open>CurveBitcoin\<close>, and the bytes of the last child key are then decoded
  with \<open>SigAlgo()\<close>, as a P-256 key.
\<close>

theorem Validate_curve_ignores_default:
  "baseAccountKey_SigAlgo (bip44_base (example_bip44 UnknownSignatureAlgorithm)) = ECDSA_P256 \<and>
   Validate_curve (example_bip44 UnknownSignatureAlgorithm) = CurveBitcoin \<and>
   Validate_curve (example_bip44 ECDSA_P256) = CurveP256 \<and>
   snd (snd (Bip44AccountKey_Validate example_env (example_bip44 UnknownSignatureAlgorithm)))
   = [IsMnemonicValid_call example_mnemonic, ParseDerivationPath_call ''m/0/1'',
      NewSeed_call example_mnemonic [], NewMasterKeyWithCurve_call [1, 2, 3] CurveBitcoin,
      NewChildKey_call 0, NewChildKey_call 1,
      DecodePrivateKey_call ECDSA_P256 [2, 1, 2, 3, 0, 1]]"
  by (simp add: example_bip44_unset_run)
     (simp add: example_bip44_def baseAccountKey_SigAlgo_def Validate_curve_def)

section \<open>Accounts from a configuration\<close>

lemma AccountFromConfig_loop_first_error:
  assumes "\<forall>k' \<in> set kpre. \<exists>key. NewAccountKey k' = Inr key"
    and "NewAccountKey k = Inl err"
  shows "AccountFromConfig_loop NewAccountKey accountKeys (kpre @ k # kpost) = Inl err"
  using assms
proof (induction kpre arbitrary: accountKeys)
  case Nil
  then show ?case by simp
next
  case (Cons k0 kpre)
  from Cons.prems(1) obtain key where "NewAccountKey k0 = Inr key" by auto
  moreover from Cons.prems have
    "AccountFromConfig_loop NewAccountKey (accountKeys @ [key]) (kpre @ k # kpost) = Inl err"
    by (intro Cons.IH) auto
  ultimately show ?case by simp
qed

lemma accountsFromConfig_loop_first_error:
  assumes "\<forall>a \<in> set pre. \<exists>account. AccountFromConfig NewAccountKey a = Inr account"
    and "AccountFromConfig NewAccountKey bad = Inl err"
  shows "accountsFromConfig_loop NewAccountKey accounts (pre @ bad # post) = Inl err"
  using assms
proof (induction pre arbitrary: accounts)
  case Nil
  then show ?case by simp
next
  case (Cons a0 pre)
  from Cons.prems(1) obtain account where "AccountFromConfig NewAccountKey a0 = Inr account"
    by auto
  moreover from Cons.prems have
    "accountsFromConfig_loop NewAccountKey (accounts @ [account]) (pre @ bad # post) = Inl err"
    by (intro Cons.IH) auto
  ultimately show ?case by simp
qed

text \<open>
  C6. When the account records before some record convert, and in that record the key
  records before some key record convert while the factory returns an error for that key
  record, then \<open>AccountFromConfig\<close> of the record and \<open>accountsFromConfig\<close> of the
  configuration return exactly that error, and with it no list of accounts: the accounts
  built so far are dropped. With the factory \<open>accountKeyFromConfig\<close> and a key record
  whose tag is outside the enumeration, the error is the unsupported-key-type error of
  that tag.
\<close>

theorem accountsFromConfig_first_error:
  assumes "Accounts conf = pre @ bad # post"
    and "\<forall>a \<in> set pre. \<exists>account. AccountFromConfig NewAccountKey a = Inr account"
    and "Keys bad = kpre @ k # kpost"
    and "\<forall>k' \<in> set kpre. \<exists>key. NewAccountKey k' = Inr key"
    and "NewAccountKey k = Inl err"
  shows "AccountFromConfig NewAccountKey bad = Inl err \<and>
         accountsFromConfig NewAccountKey conf = Inl err \<and>
         (NewAccountKey = accountKeyFromConfig E \<and>
          Type k \<notin> {KeyTypeHex, KeyTypeFile, KeyTypeBip44, KeyTypeGoogleKMS} \<longrightarrow>
            accountsFromConfig (accountKeyFromConfig E) conf = Inl (UnsupportedKeyType (Type k)))"
proof -
  from assms(3-5) have bad: "AccountFromConfig NewAccountKey bad = Inl err"
    by (simp add: AccountFromConfig_def AccountFromConfig_loop_first_error)
  with assms(1,2) have all: "accountsFromConfig NewAccountKey conf = Inl err"
    by (simp add: accountsFromConfig_def accountsFromConfig_loop_first_error)
  have "accountsFromConfig (accountKeyFromConfig E) conf = Inl (UnsupportedKeyType (Type k))"
    if "NewAccountKey = accountKeyFromConfig E"
      and "Type k \<notin> {KeyTypeHex, KeyTypeFile, KeyTypeBip44, KeyTypeGoogleKMS}"
  proof -
    from that have "accountKeyFromConfig E k = Inl (UnsupportedKeyType (Type k))"
      by (simp add: accountKeyFromConfig_other)
    with that(1) assms(5) have "err = UnsupportedKeyType (Type k)" by simp
    with all that(1) show ?thesis by simp
  qed
  with bad all show ?thesis by blast
qed

theorem accountsFromConfig_first_error_witness:
  "AccountFromConfig (accountKeyFromConfig example_env) (Accounts example_config ! 2)
     = Inl (UnsupportedKeyType ''unknown-type'') \<and>
   accountsFromConfig (accountKeyFromConfig example_env) example_config
     = Inl (UnsupportedKeyType ''unknown-type'')"
proof -
  let ?F = "accountKeyFromConfig example_env"
  let ?pre = "take 2 (Accounts example_config)"
  let ?bad = "Accounts example_config ! 2"
  let ?post = "drop 3 (Accounts example_config)"
  let ?k = "Keys ?bad ! 1"
  have 1: "Accounts example_config = ?pre @ ?bad # ?post"
    by (simp add: example_config_def)
  have 2: "\<forall>a \<in> set ?pre. \<exists>account. AccountFromConfig ?F a = Inr account"
    by (simp add: example_config_def AccountFromConfig_def accountKeyFromConfig_def
        hexKeyFromConfig_def fileKeyFromConfig_def
        KeyTypeHex_def KeyTypeBip44_def KeyTypeGoogleKMS_def KeyTypeFile_def)
  have 3: "Keys ?bad = take 1 (Keys ?bad) @ ?k # drop 2 (Keys ?bad)"
    by (simp add: example_config_def)
  have 4: "\<forall>k' \<in> set (take 1 (Keys ?bad)). \<exists>key. ?F k' = Inr key"
    by (simp add: example_config_def accountKeyFromConfig_def hexKeyFromConfig_def KeyTypeHex_def)
  have 5: "?F ?k = Inl (UnsupportedKeyType ''unknown-type'')"
    by (simp add: example_config_def accountKeyFromConfig_def
        KeyTypeHex_def KeyTypeBip44_def KeyTypeGoogleKMS_def KeyTypeFile_def)
  have 6: "Type ?k \<notin> {KeyTypeHex, KeyTypeFile, KeyTypeBip44, KeyTypeGoogleKMS}"
    by (simp add: example_config_def
        KeyTypeHex_def KeyTypeBip44_def KeyTypeGoogleKMS_def KeyTypeFile_def)
  have 7: "Type ?k = ''unknown-type''"
    by (simp add: example_config_def)
  from accountsFromConfig_first_error [OF 1 2 3 4 5, where E = example_env] 6
  have "AccountFromConfig ?F ?bad = Inl (UnsupportedKeyType ''unknown-type'')"
    and "accountsFromConfig ?F example_config = Inl (UnsupportedKeyType (Type ?k))"
    by blast+
  with 7 show ?thesis by simp
qed

end
